theory Spec2Isabelle
  imports Main "HOL-Library.Word"
begin

section \<open>ARM64 hardware-intrinsic code generation (hwintrinsiccodegenarm64.cpp)\<close>

text \<open>
  A shallow embedding of \<^verbatim>\<open>CodeGen::HWIntrinsicImmOpHelper\<close> and
  \<^verbatim>\<open>CodeGen::genHWIntrinsic\<close>. The emitter is a sink: every call to it is recorded,
  with its arguments, at the end of the instruction stream. An \<^verbatim>\<open>assert\<close> is modelled
  as in a checked build of the compiler, where a failed assertion halts code generation;
  the state at the failure is kept, so that what had been emitted before it can be read.
\<close>

subsection \<open>Enumerations and machine types\<close>

text \<open>\<^verbatim>\<open>regNumber\<close>: the physical registers and the marker \<^verbatim>\<open>REG_NA\<close>.\<close>

datatype regNumber = REG nat | REG_NA

text \<open>\<^verbatim>\<open>BasicBlock*\<close>: a temporary label, or \<^verbatim>\<open>nullptr\<close> (\<open>None\<close>).\<close>

type_synonym BasicBlockPtr = "nat option"

text \<open>C++ \<^verbatim>\<open>int\<close> (32 bits), \<^verbatim>\<open>ssize_t\<close> (64 bits on this target) and the bit
  pattern of a \<^verbatim>\<open>double\<close>, which the code only passes on to the emitter.\<close>

type_synonym cint = "32 word"
type_synonym ssize_t = "64 word"
type_synonym double = "64 word"

text \<open>The opcodes the file names; \<open>INS_other\<close> stands for the rest of the opcode table.\<close>

datatype instruction =
    INS_invalid | INS_mov | INS_cbnz | INS_adr | INS_add | INS_br | INS_b
  | INS_bsl | INS_bif | INS_bit
  | INS_crc32w | INS_crc32cw | INS_crc32x | INS_crc32cx
  | INS_fmov | INS_movi | INS_other nat

datatype emitAttr = EA_1BYTE | EA_2BYTE | EA_4BYTE | EA_8BYTE | EA_16BYTE

datatype insOpts =
    INS_OPTS_NONE | INS_OPTS_LSL
  | INS_OPTS_8B | INS_OPTS_16B | INS_OPTS_4H | INS_OPTS_8H
  | INS_OPTS_2S | INS_OPTS_4S | INS_OPTS_1D | INS_OPTS_2D

datatype var_types =
    TYP_BYTE | TYP_UBYTE | TYP_SHORT | TYP_USHORT | TYP_INT | TYP_UINT
  | TYP_LONG | TYP_ULONG | TYP_FLOAT | TYP_DOUBLE

datatype HWIntrinsicCategory =
    HW_Category_SimpleSIMD | HW_Category_IMM | HW_Category_Scalar | HW_Category_SIMDScalar
  | HW_Category_MemoryLoad | HW_Category_MemoryStore | HW_Category_Helper | HW_Category_Special

text \<open>The intrinsic identifiers \<^verbatim>\<open>genHWIntrinsic\<close> names; \<open>NI_Other\<close> stands for the rest.\<close>

datatype NamedIntrinsic =
    NI_AdvSimd_BitwiseSelect
  | NI_Crc32_ComputeCrc32 | NI_Crc32_ComputeCrc32C
  | NI_Crc32_Arm64_ComputeCrc32 | NI_Crc32_Arm64_ComputeCrc32C
  | NI_AdvSimd_CompareLessThan | NI_AdvSimd_CompareLessThanOrEqual
  | NI_AdvSimd_Arm64_CompareLessThan | NI_AdvSimd_Arm64_CompareLessThanScalar
  | NI_AdvSimd_Arm64_CompareLessThanOrEqual | NI_AdvSimd_Arm64_CompareLessThanOrEqualScalar
  | NI_AdvSimd_AbsoluteCompareLessThan | NI_AdvSimd_AbsoluteCompareLessThanOrEqual
  | NI_AdvSimd_Arm64_AbsoluteCompareLessThan | NI_AdvSimd_Arm64_AbsoluteCompareLessThanScalar
  | NI_AdvSimd_Arm64_AbsoluteCompareLessThanOrEqual
  | NI_AdvSimd_Arm64_AbsoluteCompareLessThanOrEqualScalar
  | NI_AdvSimd_FusedMultiplyAddScalar | NI_AdvSimd_FusedMultiplyAddNegatedScalar
  | NI_AdvSimd_FusedMultiplySubtractNegatedScalar | NI_AdvSimd_FusedMultiplySubtractScalar
  | NI_AdvSimd_Store
  | NI_AdvSimd_Extract | NI_AdvSimd_ExtractVector64 | NI_AdvSimd_ExtractVector128
  | NI_AdvSimd_Insert
  | NI_Vector64_CreateScalarUnsafe | NI_Vector128_CreateScalarUnsafe
  | NI_Vector64_get_Zero | NI_Vector64_get_AllBitsSet
  | NI_Vector128_get_Zero | NI_Vector128_get_AllBitsSet
  | NI_Other nat

text \<open>A failed \<^verbatim>\<open>assert\<close> (with the asserted condition), \<^verbatim>\<open>unreached()\<close>, and the
  dereference of an operand pointer that is \<^verbatim>\<open>nullptr\<close>.\<close>

datatype error = AssertionFailed string | Unreached | NullDereference

subsection \<open>Operand nodes, the intrinsic node and its decomposition\<close>

text \<open>What \<^verbatim>\<open>genHWIntrinsic\<close> reads of an operand (\<^verbatim>\<open>GenTree*\<close>): its register, and
  whether it is a contained integer constant (\<^verbatim>\<open>isContainedIntOrIImmed\<close>, with
  \<^verbatim>\<open>AsIntCon()->IconValue()\<close>) or a contained floating-point constant
  (\<^verbatim>\<open>isContainedFltOrDblImmed\<close>, with \<^verbatim>\<open>AsDblCon()->gtDconVal\<close>).\<close>

datatype containment = NotContained | ContainedInt ssize_t | ContainedDbl double

record GenTree =
  regNum :: regNumber
  contained :: containment

definition isContainedIntOrIImmed :: "GenTree \<Rightarrow> bool" where
  "isContainedIntOrIImmed t = (case contained t of ContainedInt v \<Rightarrow> True | _ \<Rightarrow> False)"

definition isContainedFltOrDblImmed :: "GenTree \<Rightarrow> bool" where
  "isContainedFltOrDblImmed t = (case contained t of ContainedDbl d \<Rightarrow> True | _ \<Rightarrow> False)"

text \<open>What is read of the node itself (\<^verbatim>\<open>GenTreeHWIntrinsic*\<close>). \<open>isRMWHWIntrinsic\<close> and
  \<open>GetSingleTempReg\<close> hold the results of the node's methods of these names.\<close>

record GenTreeHWIntrinsic =
  gtRegNum :: regNumber
  gtHWIntrinsicId :: NamedIntrinsic
  gtSIMDSize :: nat
  gtSIMDBaseType :: var_types
  isRMWHWIntrinsic :: bool
  GetSingleTempReg :: regNumber

text \<open>\<^verbatim>\<open>HWIntrinsic intrin(node)\<close>: the decomposed node. An operand pointer may be
  \<^verbatim>\<open>nullptr\<close>. \<open>IsTableDriven\<close> holds the result of the method of this name.\<close>

record HWIntrinsic =
  intrin_id :: NamedIntrinsic
  category :: HWIntrinsicCategory
  baseType :: var_types
  numOperands :: int
  op1 :: "GenTree option"
  op2 :: "GenTree option"
  op3 :: "GenTree option"
  IsTableDriven :: bool

text \<open>The tables and type helpers that the file consults and that are defined elsewhere in the
  compiler, taken as parameters: \<^verbatim>\<open>HWIntrinsicInfo::lookupIns\<close>, \<^verbatim>\<open>lookupImmUpperBound\<close>,
  \<^verbatim>\<open>lookupNumArgs\<close>, \<^verbatim>\<open>isImmOp\<close>, \<^verbatim>\<open>GeneratesMultipleIns\<close>, and
  \<^verbatim>\<open>emitActualTypeSize\<close>, \<^verbatim>\<open>emitTypeSize\<close>, \<^verbatim>\<open>EA_SIZE\<close>, \<^verbatim>\<open>genTypeSize\<close>,
  \<^verbatim>\<open>genGetSimdInsOpt\<close>, \<^verbatim>\<open>varTypeIsFloating\<close>.\<close>

record externals =
  lookupIns :: "NamedIntrinsic \<Rightarrow> var_types \<Rightarrow> instruction"
  lookupImmUpperBound :: "NamedIntrinsic \<Rightarrow> nat \<Rightarrow> var_types \<Rightarrow> cint"
  lookupNumArgs :: "NamedIntrinsic \<Rightarrow> int"
  isImmOp :: "NamedIntrinsic \<Rightarrow> GenTree \<Rightarrow> bool"
  GeneratesMultipleIns :: "NamedIntrinsic \<Rightarrow> bool"
  emitActualTypeSize :: "var_types \<Rightarrow> emitAttr"
  emitTypeSize :: "var_types \<Rightarrow> emitAttr"
  EA_SIZE :: "nat \<Rightarrow> emitAttr"
  genTypeSize :: "var_types \<Rightarrow> cint"
  genGetSimdInsOpt :: "emitAttr \<Rightarrow> var_types \<Rightarrow> insOpts"
  varTypeIsFloating :: "var_types \<Rightarrow> bool"

subsection \<open>The emitter and the code generator's state\<close>

text \<open>One entry of the instruction stream: a call of the emitter of the same name with its
  arguments (a default argument \<^verbatim>\<open>opt = INS_OPTS_NONE\<close> is written out), or the definition of
  a label at the current position (\<^verbatim>\<open>genDefineInlineTempLabel\<close>).\<close>

datatype emitted =
    Ins_R instruction emitAttr regNumber
  | Ins_R_R instruction emitAttr regNumber regNumber insOpts
  | Ins_R_R_R instruction emitAttr regNumber regNumber regNumber insOpts
  | Ins_R_R_R_R instruction emitAttr regNumber regNumber regNumber regNumber
  | Ins_R_I instruction emitAttr regNumber ssize_t insOpts
  | Ins_R_F instruction emitAttr regNumber double insOpts
  | Ins_R_R_I instruction emitAttr regNumber regNumber ssize_t insOpts
  | Ins_R_R_I_I instruction emitAttr regNumber regNumber ssize_t ssize_t insOpts
  | Ins_R_R_R_I instruction emitAttr regNumber regNumber regNumber ssize_t insOpts
  | Ins_J instruction BasicBlockPtr
  | Ins_J_R instruction emitAttr BasicBlockPtr regNumber
  | Ins_R_L instruction emitAttr BasicBlockPtr regNumber
  | DefineLabel BasicBlockPtr

text \<open>The state of the enclosing code generator: the instruction stream, the counter from
  which temporary labels are made, and the registers bound as results.\<close>

record cg_state =
  stream :: "emitted list"
  nextLabel :: nat
  produced :: "regNumber list"

definition emit :: "emitted \<Rightarrow> cg_state \<Rightarrow> cg_state" where
  "emit x s = s\<lparr>stream := stream s @ [x]\<rparr>"

text \<open>Modelled from the spec: \<^verbatim>\<open>genCreateTempLabel\<close> and \<^verbatim>\<open>genDefineInlineTempLabel\<close> are
  defined in another file; the spec gives them as \<^verbatim>\<open>createLabel()\<close> and
  \<^verbatim>\<open>defineLabel(label)\<close> of the emitter sink. A created label is new.\<close>

definition genCreateTempLabel :: "cg_state \<Rightarrow> BasicBlockPtr \<times> cg_state" where
  "genCreateTempLabel s = (Some (nextLabel s), s\<lparr>nextLabel := nextLabel s + 1\<rparr>)"

definition genDefineInlineTempLabel :: "BasicBlockPtr \<Rightarrow> cg_state \<Rightarrow> cg_state" where
  "genDefineInlineTempLabel l s = emit (DefineLabel l) s"

text \<open>Modelled from the spec: \<^verbatim>\<open>genConsumeHWIntrinsicOperands\<close> and \<^verbatim>\<open>genProduceReg\<close> are
  defined in another file. By the spec the operands are already evaluated when this stage
  runs, and producing the result binds the node's result to its target register.\<close>

definition genConsumeHWIntrinsicOperands :: "GenTreeHWIntrinsic \<Rightarrow> cg_state \<Rightarrow> cg_state" where
  "genConsumeHWIntrinsicOperands node s = s"

definition genProduceReg :: "GenTreeHWIntrinsic \<Rightarrow> cg_state \<Rightarrow> cg_state" where
  "genProduceReg node s = s\<lparr>produced := produced s @ [gtRegNum node]\<rparr>"

subsection \<open>HWIntrinsicImmOpHelper\<close>

record HWIntrinsicImmOpHelper =
  endLabel :: BasicBlockPtr
  nonZeroLabel :: BasicBlockPtr
  immValue :: cint
  immUpperBound :: cint
  nonConstImmReg :: regNumber
  branchTargetReg :: regNumber

text \<open>Modelled from the spec: the inline members \<^verbatim>\<open>Done\<close>, \<^verbatim>\<open>ImmValue\<close>,
  \<^verbatim>\<open>NonConstImmOp\<close> and \<^verbatim>\<open>TestImmOpZeroOrOne\<close> are declared in codegen.h, which is
  missing. By the spec \<^verbatim>\<open>Done()\<close> is true once the current value equals the exclusive upper
  bound, the branch-on-nonzero mode is the one whose range is exactly {0,1}, and the helper is
  a no-op for a constant operand. The constructor marks a constant operand by
  \<^verbatim>\<open>nonConstImmReg = REG_NA\<close>; this is the only field that tells the two cases apart.\<close>

definition Done :: "HWIntrinsicImmOpHelper \<Rightarrow> bool" where
  "Done h = (immValue h = immUpperBound h)"

definition ImmValue :: "HWIntrinsicImmOpHelper \<Rightarrow> cint" where
  "ImmValue h = immValue h"

definition NonConstImmOp :: "HWIntrinsicImmOpHelper \<Rightarrow> bool" where
  "NonConstImmOp h = (nonConstImmReg h \<noteq> REG_NA)"

definition TestImmOpZeroOrOne :: "HWIntrinsicImmOpHelper \<Rightarrow> bool" where
  "TestImmOpZeroOrOne h = (immUpperBound h = 2)"

text \<open>The constructor. \<^verbatim>\<open>(int)immOp->AsIntCon()->IconValue()\<close> keeps the low 32 bits.
  The code generator is the caller itself, so \<^verbatim>\<open>assert(codeGen != nullptr)\<close> cannot fail.\<close>

definition HWIntrinsicImmOpHelper_new ::
  "externals \<Rightarrow> GenTree \<Rightarrow> GenTreeHWIntrinsic \<Rightarrow> cg_state
     \<Rightarrow> (error + HWIntrinsicImmOpHelper) \<times> cg_state" where
  "HWIntrinsicImmOpHelper_new ext immOp intrin s =
    (if \<not> isImmOp ext (gtHWIntrinsicId intrin) immOp
     then (Inl (AssertionFailed ''HWIntrinsicInfo::isImmOp(intrin->gtHWIntrinsicId, immOp)''), s)
     else
       (case contained immOp of
          ContainedInt v \<Rightarrow>
            (Inr \<lparr>endLabel = None, nonZeroLabel = None,
                  immValue = ucast v, immUpperBound = ucast v + 1,
                  nonConstImmReg = REG_NA, branchTargetReg = REG_NA\<rparr>, s)
        | _ \<Rightarrow>
            (let h0 = \<lparr>endLabel = None, nonZeroLabel = None,
                       immValue = 0,
                       immUpperBound = lookupImmUpperBound ext (gtHWIntrinsicId intrin)
                                         (gtSIMDSize intrin) (gtSIMDBaseType intrin),
                       nonConstImmReg = regNum immOp, branchTargetReg = REG_NA\<rparr>
             in if TestImmOpZeroOrOne h0
                then (let (l, s1) = genCreateTempLabel s;
                          h1 = h0\<lparr>nonZeroLabel := l\<rparr>;
                          (e, s2) = genCreateTempLabel s1
                      in (Inr (h1\<lparr>endLabel := e\<rparr>), s2))
                else if GeneratesMultipleIns ext (gtHWIntrinsicId intrin)
                then (Inl (AssertionFailed
                        ''!HWIntrinsicInfo::GeneratesMultipleIns(intrin->gtHWIntrinsicId)''), s)
                else (let h1 = h0\<lparr>branchTargetReg := GetSingleTempReg intrin\<rparr>;
                          (e, s1) = genCreateTempLabel s
                      in (Inr (h1\<lparr>endLabel := e\<rparr>), s1)))))"

text \<open>\<^verbatim>\<open>EmitBegin\<close>: no-op for a constant operand; otherwise \<^verbatim>\<open>cbnz\<close> to the non-zero
  label, or \<^verbatim>\<open>adr\<close>, \<^verbatim>\<open>add ..., lsl #3\<close>, \<^verbatim>\<open>br\<close>; then the begin label is defined.\<close>

definition EmitBegin :: "HWIntrinsicImmOpHelper \<Rightarrow> cg_state \<Rightarrow> cg_state" where
  "EmitBegin h s =
    (if NonConstImmOp h
     then (let (beginLabel, s1) = genCreateTempLabel s;
               s2 = (if TestImmOpZeroOrOne h
                     then emit (Ins_J_R INS_cbnz EA_4BYTE (nonZeroLabel h) (nonConstImmReg h)) s1
                     else emit (Ins_R INS_br EA_8BYTE (branchTargetReg h))
                           (emit (Ins_R_R_R_I INS_add EA_8BYTE (branchTargetReg h)
                                    (branchTargetReg h) (nonConstImmReg h) 3 INS_OPTS_LSL)
                             (emit (Ins_R_L INS_adr EA_8BYTE beginLabel (branchTargetReg h)) s1)))
           in genDefineInlineTempLabel beginLabel s2)
     else s)"

text \<open>\<^verbatim>\<open>EmitCaseEnd\<close>: asserts \<^verbatim>\<open>!Done()\<close>; for a non-constant operand it defines the end
  label after the last case, and otherwise emits \<^verbatim>\<open>b endLabel\<close> and defines the non-zero
  label or a new label; then \<^verbatim>\<open>immValue++\<close>.\<close>

definition EmitCaseEnd ::
  "HWIntrinsicImmOpHelper \<Rightarrow> cg_state \<Rightarrow> (error + HWIntrinsicImmOpHelper) \<times> cg_state" where
  "EmitCaseEnd h s =
    (if Done h then (Inl (AssertionFailed ''!Done()''), s)
     else
       (let s' =
          (if NonConstImmOp h
           then (let isLastCase = (immValue h + 1 = immUpperBound h)
                 in if isLastCase
                    then genDefineInlineTempLabel (endLabel h) s
                    else (let s1 = emit (Ins_J INS_b (endLabel h)) s
                          in if TestImmOpZeroOrOne h
                             then genDefineInlineTempLabel (nonZeroLabel h) s1
                             else (let (tempLabel, s2) = genCreateTempLabel s1
                                   in genDefineInlineTempLabel tempLabel s2)))
           else s)
        in (Inr (h\<lparr>immValue := immValue h + 1\<rparr>), s')))"

text \<open>The loop
  \<^verbatim>\<open>for (helper.EmitBegin(); !helper.Done(); helper.EmitCaseEnd()) { body }\<close>
  after \<^verbatim>\<open>EmitBegin\<close>: the body is given the value of \<^verbatim>\<open>helper.ImmValue()\<close>.\<close>

function forCases ::
  "(cint \<Rightarrow> cg_state \<Rightarrow> cg_state) \<Rightarrow> HWIntrinsicImmOpHelper \<Rightarrow> cg_state
     \<Rightarrow> (error + HWIntrinsicImmOpHelper) \<times> cg_state" where
  "forCases body h s =
    (if Done h then (Inr h, s)
     else (case EmitCaseEnd h (body (ImmValue h) s) of
             (Inl e, s') \<Rightarrow> (Inl e, s')
           | (Inr h', s') \<Rightarrow> forCases body h' s'))"
  by pat_completeness auto

termination forCases
proof (relation "measure (\<lambda>(body, h, s). unat (immUpperBound h - immValue h))", goal_cases)
  case 1
  show ?case by simp
next
  case (2 body h s x1 s' h')
  from 2(2,3) have e: "EmitCaseEnd h (body (ImmValue h) s) = (Inr h', s')" by simp
  from 2(1) have ne: "immValue h \<noteq> immUpperBound h" by (simp add: Done_def)
  from e 2(1) have h': "h' = h\<lparr>immValue := immValue h + 1\<rparr>"
    by (simp add: EmitCaseEnd_def Let_def)
  have nz: "immUpperBound h - immValue h \<noteq> 0" using ne by simp
  have d: "immUpperBound h - (immValue h + 1) = immUpperBound h - immValue h - 1"
    by simp
  have "unat (immUpperBound h - immValue h - 1) = unat (immUpperBound h - immValue h) - 1"
    using nz by (rule unat_minus_one)
  moreover have "0 < unat (immUpperBound h - immValue h)" using nz by (simp add: unat_gt_0)
  ultimately have "unat (immUpperBound h - (immValue h + 1))
                     < unat (immUpperBound h - immValue h)"
    unfolding d by simp
  then show ?case by (simp add: h')
qed

declare forCases.simps [simp del]

text \<open>The pattern that \<^verbatim>\<open>genHWIntrinsic\<close> repeats for an immediate operand:
  \<^verbatim>\<open>HWIntrinsicImmOpHelper helper(this, immOp, node);\<close> followed by the loop over the cases.
  An operand pointer that is \<^verbatim>\<open>nullptr\<close> cannot be read.\<close>

definition forEachImmCase ::
  "externals \<Rightarrow> GenTree option \<Rightarrow> GenTreeHWIntrinsic \<Rightarrow> (cint \<Rightarrow> cg_state \<Rightarrow> cg_state)
     \<Rightarrow> cg_state \<Rightarrow> (error + unit) \<times> cg_state" where
  "forEachImmCase ext immOpPtr node body s =
    (case immOpPtr of
       None \<Rightarrow> (Inl NullDereference, s)
     | Some immOp \<Rightarrow>
        (case HWIntrinsicImmOpHelper_new ext immOp node s of
           (Inl e, s1) \<Rightarrow> (Inl e, s1)
         | (Inr helper, s1) \<Rightarrow>
            (case forCases body helper (EmitBegin helper s1) of
               (Inl e, s2) \<Rightarrow> (Inl e, s2)
             | (Inr helper', s2) \<Rightarrow> (Inr (), s2))))"

subsection \<open>genHWIntrinsic\<close>

text \<open>The first \<^verbatim>\<open>switch (intrin.numOperands)\<close>: the operand registers
  \<open>(op1Reg, op2Reg, op3Reg)\<close>, read positionally with fall-through from 3 to 1.\<close>

definition operandRegs ::
  "externals \<Rightarrow> HWIntrinsic \<Rightarrow> error + (regNumber \<times> regNumber \<times> regNumber)" where
  "operandRegs ext intrin =
    (if numOperands intrin = 3 then
       (case op3 intrin of
          None \<Rightarrow> Inl (AssertionFailed ''intrin.op3 != nullptr'')
        | Some o3 \<Rightarrow>
         (case op2 intrin of
            None \<Rightarrow> Inl (AssertionFailed ''intrin.op2 != nullptr'')
          | Some o2 \<Rightarrow>
           (case op1 intrin of
              None \<Rightarrow> Inl (AssertionFailed ''intrin.op1 != nullptr'')
            | Some o1 \<Rightarrow> Inr (regNum o1, regNum o2, regNum o3))))
     else if numOperands intrin = 2 then
       (case op2 intrin of
          None \<Rightarrow> Inl (AssertionFailed ''intrin.op2 != nullptr'')
        | Some o2 \<Rightarrow>
         (case op1 intrin of
            None \<Rightarrow> Inl (AssertionFailed ''intrin.op1 != nullptr'')
          | Some o1 \<Rightarrow> Inr (regNum o1, regNum o2, REG_NA)))
     else if numOperands intrin = 1 then
       (case op1 intrin of
          None \<Rightarrow> Inl (AssertionFailed ''intrin.op1 != nullptr'')
        | Some o1 \<Rightarrow> Inr (regNum o1, REG_NA, REG_NA))
     else if numOperands intrin = 0 then
       (if lookupNumArgs ext (intrin_id intrin) = 0 then Inr (REG_NA, REG_NA, REG_NA)
        else Inl (AssertionFailed ''HWIntrinsicInfo::lookupNumArgs(intrin.id) == 0''))
     else Inl Unreached)"

text \<open>\<open>(emitSize, opt)\<close> as computed before the operands are consumed.\<close>

definition emitSizeAndOpt ::
  "externals \<Rightarrow> GenTreeHWIntrinsic \<Rightarrow> HWIntrinsic \<Rightarrow> emitAttr \<times> insOpts" where
  "emitSizeAndOpt ext node intrin =
    (if category intrin = HW_Category_SIMDScalar \<or> category intrin = HW_Category_Scalar
     then (emitActualTypeSize ext (baseType intrin), INS_OPTS_NONE)
     else (let emitSize = EA_SIZE ext (gtSIMDSize node);
               opt = genGetSimdInsOpt ext emitSize (baseType intrin)
           in if opt = INS_OPTS_1D \<and> category intrin = HW_Category_SimpleSIMD
              then (emitSize, INS_OPTS_NONE)
              else (emitSize, opt)))"

text \<open>The table-driven branch: the opcode is looked up and the shape follows from
  \<open>numOperands\<close> and \<open>isRMW\<close>.\<close>

definition genTableDriven ::
  "externals \<Rightarrow> HWIntrinsic \<Rightarrow> regNumber \<Rightarrow> regNumber \<Rightarrow> regNumber \<Rightarrow> regNumber
     \<Rightarrow> emitAttr \<Rightarrow> insOpts \<Rightarrow> bool \<Rightarrow> cg_state \<Rightarrow> (error + unit) \<times> cg_state" where
  "genTableDriven ext intrin targetReg op1Reg op2Reg op3Reg emitSize opt isRMW s =
    (let ins = lookupIns ext (intrin_id intrin) (baseType intrin)
     in if ins = INS_invalid then (Inl (AssertionFailed ''ins != INS_invalid''), s)
        else if numOperands intrin = 1 then
          (Inr (), emit (Ins_R_R ins emitSize targetReg op1Reg opt) s)
        else if numOperands intrin = 2 then
          (if isRMW then
             (if targetReg = op2Reg then (Inl (AssertionFailed ''targetReg != op2Reg''), s)
              else
                (let s1 = (if targetReg \<noteq> op1Reg
                           then emit (Ins_R_R INS_mov emitSize targetReg op1Reg INS_OPTS_NONE) s
                           else s)
                 in (Inr (), emit (Ins_R_R ins emitSize targetReg op2Reg opt) s1)))
           else (Inr (), emit (Ins_R_R_R ins emitSize targetReg op1Reg op2Reg opt) s))
        else if numOperands intrin = 3 then
          (if \<not> isRMW then (Inl (AssertionFailed ''isRMW''), s)
           else if targetReg = op2Reg then (Inl (AssertionFailed ''targetReg != op2Reg''), s)
           else if targetReg = op3Reg then (Inl (AssertionFailed ''targetReg != op3Reg''), s)
           else
             (let s1 = (if targetReg \<noteq> op1Reg
                        then emit (Ins_R_R INS_mov emitSize targetReg op1Reg INS_OPTS_NONE) s
                        else s)
              in (Inr (), emit (Ins_R_R_R ins emitSize targetReg op2Reg op3Reg opt) s1)))
        else (Inl Unreached, s))"

text \<open>The first \<^verbatim>\<open>switch (intrin.id)\<close> of the other branch: the opcode.\<close>

definition selectIns :: "externals \<Rightarrow> HWIntrinsic \<Rightarrow> error + instruction" where
  "selectIns ext intrin =
    (if intrin_id intrin = NI_Crc32_ComputeCrc32 then
       (if baseType intrin = TYP_INT then Inr INS_crc32w
        else Inr (lookupIns ext (intrin_id intrin) (baseType intrin)))
     else if intrin_id intrin = NI_Crc32_ComputeCrc32C then
       (if baseType intrin = TYP_INT then Inr INS_crc32cw
        else Inr (lookupIns ext (intrin_id intrin) (baseType intrin)))
     else if intrin_id intrin = NI_Crc32_Arm64_ComputeCrc32 then
       (if baseType intrin = TYP_LONG then Inr INS_crc32x
        else Inl (AssertionFailed ''intrin.baseType == TYP_LONG''))
     else if intrin_id intrin = NI_Crc32_Arm64_ComputeCrc32C then
       (if baseType intrin = TYP_LONG then Inr INS_crc32cx
        else Inl (AssertionFailed ''intrin.baseType == TYP_LONG''))
     else Inr (lookupIns ext (intrin_id intrin) (baseType intrin)))"

text \<open>\<^verbatim>\<open>case NI_AdvSimd_BitwiseSelect\<close>.\<close>

definition genBitwiseSelect ::
  "regNumber \<Rightarrow> regNumber \<Rightarrow> regNumber \<Rightarrow> regNumber \<Rightarrow> emitAttr \<Rightarrow> insOpts \<Rightarrow> bool
     \<Rightarrow> cg_state \<Rightarrow> (error + unit) \<times> cg_state" where
  "genBitwiseSelect targetReg op1Reg op2Reg op3Reg emitSize opt isRMW s =
    (if isRMW then (Inl (AssertionFailed ''!isRMW''), s)
     else if targetReg = op1Reg then
       (Inr (), emit (Ins_R_R_R INS_bsl emitSize targetReg op2Reg op3Reg opt) s)
     else if targetReg = op2Reg then
       (Inr (), emit (Ins_R_R_R INS_bif emitSize targetReg op3Reg op1Reg opt) s)
     else if targetReg = op3Reg then
       (Inr (), emit (Ins_R_R_R INS_bit emitSize targetReg op2Reg op1Reg opt) s)
     else
       (Inr (), emit (Ins_R_R_R INS_bsl emitSize targetReg op2Reg op3Reg opt)
                  (emit (Ins_R_R INS_mov emitSize targetReg op1Reg INS_OPTS_NONE) s)))"

text \<open>\<^verbatim>\<open>case NI_AdvSimd_Insert\<close>. The move of \<open>op1Reg\<close> is emitted before
  \<^verbatim>\<open>intrin.op3\<close> is looked at.\<close>

definition genInsert ::
  "externals \<Rightarrow> GenTreeHWIntrinsic \<Rightarrow> HWIntrinsic \<Rightarrow> instruction
     \<Rightarrow> regNumber \<Rightarrow> regNumber \<Rightarrow> regNumber \<Rightarrow> emitAttr \<Rightarrow> bool
     \<Rightarrow> cg_state \<Rightarrow> (error + unit) \<times> cg_state" where
  "genInsert ext node intrin ins targetReg op1Reg op3Reg emitSize isRMW s =
    (if \<not> isRMW then (Inl (AssertionFailed ''isRMW''), s)
     else if targetReg = op3Reg then (Inl (AssertionFailed ''targetReg != op3Reg''), s)
     else
      (let s1 = (if targetReg \<noteq> op1Reg
                 then emit (Ins_R_R INS_mov emitSize targetReg op1Reg INS_OPTS_NONE) s
                 else s)
       in case op3 intrin of
            None \<Rightarrow> (Inl NullDereference, s1)
          | Some o3 \<Rightarrow>
             (case contained o3 of
                ContainedDbl dataValue \<Rightarrow>
                  (case op2 intrin of
                     None \<Rightarrow> (Inl NullDereference, s1)
                   | Some o2 \<Rightarrow>
                      (case contained o2 of
                         ContainedInt gtIconVal \<Rightarrow>
                           (if gtIconVal = 0
                            then (Inr (), emit (Ins_R_F INS_fmov (emitTypeSize ext (baseType intrin))
                                                 targetReg dataValue INS_OPTS_NONE) s1)
                            else (Inl (AssertionFailed
                                    ''intrin.op2->AsIntCon()->gtIconVal == 0''), s1))
                       | _ \<Rightarrow> (Inl (AssertionFailed
                                    ''intrin.op2->isContainedIntOrIImmed()''), s1)))
              | _ \<Rightarrow>
                  (if varTypeIsFloating ext (baseType intrin)
                   then forEachImmCase ext (op2 intrin) node
                          (\<lambda>elementIndex.
                             emit (Ins_R_R_I_I ins (emitTypeSize ext (baseType intrin)) targetReg
                                     op3Reg (scast elementIndex) 0 INS_OPTS_NONE)) s1
                   else forEachImmCase ext (op2 intrin) node
                          (\<lambda>elementIndex.
                             emit (Ins_R_R_I ins (emitTypeSize ext (baseType intrin)) targetReg
                                     op3Reg (scast elementIndex) INS_OPTS_NONE)) s1))))"

text \<open>\<^verbatim>\<open>case NI_Vector64_CreateScalarUnsafe\<close> and \<^verbatim>\<open>NI_Vector128_CreateScalarUnsafe\<close>.\<close>

definition genCreateScalarUnsafe ::
  "externals \<Rightarrow> HWIntrinsic \<Rightarrow> instruction \<Rightarrow> regNumber \<Rightarrow> regNumber \<Rightarrow> emitAttr \<Rightarrow> insOpts
     \<Rightarrow> cg_state \<Rightarrow> (error + unit) \<times> cg_state" where
  "genCreateScalarUnsafe ext intrin ins targetReg op1Reg emitSize opt s =
    (case op1 intrin of
       None \<Rightarrow> (Inl NullDereference, s)
     | Some o1 \<Rightarrow>
        (case contained o1 of
           ContainedDbl dataValue \<Rightarrow>
             (Inr (), emit (Ins_R_F ins (emitTypeSize ext (baseType intrin)) targetReg dataValue
                              INS_OPTS_NONE) s)
         | c \<Rightarrow>
             (if varTypeIsFloating ext (baseType intrin) then
                (if targetReg \<noteq> op1Reg
                 then (Inr (), emit (Ins_R_R ins (emitTypeSize ext (baseType intrin)) targetReg
                                       op1Reg INS_OPTS_NONE) s)
                 else (Inr (), s))
              else
                (case c of
                   ContainedInt dataValue \<Rightarrow>
                     (Inr (), emit (Ins_R_I INS_movi emitSize targetReg dataValue opt) s)
                 | _ \<Rightarrow>
                     (Inr (), emit (Ins_R_R_I ins (emitTypeSize ext (baseType intrin)) targetReg
                                      op1Reg 0 INS_OPTS_NONE) s)))))"

text \<open>The second \<^verbatim>\<open>switch (intrin.id)\<close>: the operations with their own operand order or
  expansion. Case labels that share a body are joined by \<open>\<or>\<close>, in the order of the source.\<close>

definition genSpecial ::
  "externals \<Rightarrow> GenTreeHWIntrinsic \<Rightarrow> HWIntrinsic \<Rightarrow> regNumber \<Rightarrow> regNumber \<Rightarrow> regNumber
     \<Rightarrow> regNumber \<Rightarrow> emitAttr \<Rightarrow> insOpts \<Rightarrow> bool \<Rightarrow> cg_state \<Rightarrow> (error + unit) \<times> cg_state" where
  "genSpecial ext node intrin targetReg op1Reg op2Reg op3Reg emitSize opt isRMW s =
    (case selectIns ext intrin of
       Inl e \<Rightarrow> (Inl e, s)
     | Inr ins \<Rightarrow>
       (let i = intrin_id intrin in
        if ins = INS_invalid then (Inl (AssertionFailed ''ins != INS_invalid''), s)
        else if i = NI_AdvSimd_BitwiseSelect then
          genBitwiseSelect targetReg op1Reg op2Reg op3Reg emitSize opt isRMW s
        else if i = NI_Crc32_ComputeCrc32 \<or> i = NI_Crc32_ComputeCrc32C
              \<or> i = NI_Crc32_Arm64_ComputeCrc32 \<or> i = NI_Crc32_Arm64_ComputeCrc32C then
          (Inr (), emit (Ins_R_R_R ins emitSize targetReg op1Reg op2Reg opt) s)
        else if i = NI_AdvSimd_CompareLessThan \<or> i = NI_AdvSimd_CompareLessThanOrEqual
              \<or> i = NI_AdvSimd_Arm64_CompareLessThan
              \<or> i = NI_AdvSimd_Arm64_CompareLessThanScalar
              \<or> i = NI_AdvSimd_Arm64_CompareLessThanOrEqual
              \<or> i = NI_AdvSimd_Arm64_CompareLessThanOrEqualScalar then
          (Inr (), emit (Ins_R_R_R ins emitSize targetReg op2Reg op1Reg opt) s)
        else if i = NI_AdvSimd_AbsoluteCompareLessThan
              \<or> i = NI_AdvSimd_AbsoluteCompareLessThanOrEqual
              \<or> i = NI_AdvSimd_Arm64_AbsoluteCompareLessThan
              \<or> i = NI_AdvSimd_Arm64_AbsoluteCompareLessThanScalar
              \<or> i = NI_AdvSimd_Arm64_AbsoluteCompareLessThanOrEqual
              \<or> i = NI_AdvSimd_Arm64_AbsoluteCompareLessThanOrEqualScalar then
          (Inr (), emit (Ins_R_R_R ins emitSize targetReg op2Reg op1Reg opt) s)
        else if i = NI_AdvSimd_FusedMultiplyAddScalar
              \<or> i = NI_AdvSimd_FusedMultiplyAddNegatedScalar
              \<or> i = NI_AdvSimd_FusedMultiplySubtractNegatedScalar
              \<or> i = NI_AdvSimd_FusedMultiplySubtractScalar then
          (if opt \<noteq> INS_OPTS_NONE then (Inl (AssertionFailed ''opt == INS_OPTS_NONE''), s)
           else (Inr (), emit (Ins_R_R_R_R ins emitSize targetReg op2Reg op3Reg op1Reg) s))
        else if i = NI_AdvSimd_Store then
          (Inr (), emit (Ins_R_R ins emitSize op2Reg op1Reg opt) s)
        else if i = NI_AdvSimd_Extract then
          forEachImmCase ext (op2 intrin) node
            (\<lambda>elementIndex.
               emit (Ins_R_R_I ins (emitTypeSize ext (baseType intrin)) targetReg op1Reg
                       (scast elementIndex) INS_OPTS_NONE)) s
        else if i = NI_AdvSimd_ExtractVector64 \<or> i = NI_AdvSimd_ExtractVector128 then
          (let opt' = (if i = NI_AdvSimd_ExtractVector64 then INS_OPTS_8B else INS_OPTS_16B)
           in forEachImmCase ext (op3 intrin) node
                (\<lambda>elementIndex.
                   (let byteIndex = genTypeSize ext (baseType intrin) * elementIndex
                    in emit (Ins_R_R_R_I ins emitSize targetReg op1Reg op2Reg
                               (scast byteIndex) opt'))) s)
        else if i = NI_AdvSimd_Insert then
          genInsert ext node intrin ins targetReg op1Reg op3Reg emitSize isRMW s
        else if i = NI_Vector64_CreateScalarUnsafe \<or> i = NI_Vector128_CreateScalarUnsafe then
          genCreateScalarUnsafe ext intrin ins targetReg op1Reg emitSize opt s
        else if i = NI_Vector64_get_Zero \<or> i = NI_Vector64_get_AllBitsSet then
          (Inr (), emit (Ins_R_I ins emitSize targetReg 0 INS_OPTS_2S) s)
        else if i = NI_Vector128_get_Zero \<or> i = NI_Vector128_get_AllBitsSet then
          (Inr (), emit (Ins_R_I ins emitSize targetReg 0 INS_OPTS_4S) s)
        else (Inl Unreached, s)))"

text \<open>\<^verbatim>\<open>CodeGen::genHWIntrinsic(node)\<close>, with \<open>intrin\<close> the decomposition of \<open>node\<close>.\<close>

definition genHWIntrinsic ::
  "externals \<Rightarrow> GenTreeHWIntrinsic \<Rightarrow> HWIntrinsic \<Rightarrow> cg_state \<Rightarrow> (error + unit) \<times> cg_state" where
  "genHWIntrinsic ext node intrin s =
    (let targetReg = gtRegNum node in
     case operandRegs ext intrin of
       Inl e \<Rightarrow> (Inl e, s)
     | Inr (op1Reg, op2Reg, op3Reg) \<Rightarrow>
        (let (emitSize, opt) = emitSizeAndOpt ext node intrin;
             isRMW = isRMWHWIntrinsic node;
             s1 = genConsumeHWIntrinsicOperands node s;
             r = (if IsTableDriven intrin
                  then genTableDriven ext intrin targetReg op1Reg op2Reg op3Reg emitSize opt isRMW s1
                  else genSpecial ext node intrin targetReg op1Reg op2Reg op3Reg emitSize opt
                         isRMW s1)
         in case r of
              (Inl e, s2) \<Rightarrow> (Inl e, s2)
            | (Inr u, s2) \<Rightarrow> (Inr (), genProduceReg node s2)))"

subsection \<open>Layout and meaning of the emitted dispatch\<close>

text \<open>The closed form of what the loop emits in the jump-table mode, for \<open>n\<close> remaining cases
  starting at value \<open>v\<close>, with \<open>e\<close> the end label and \<open>l\<close> the next unused label number: every
  case but the last is followed by \<^verbatim>\<open>b endLabel\<close> and a new label, the last one by the
  definition of the end label. It is compared with \<open>forCases\<close> below.\<close>

fun jumpTableCases ::
  "BasicBlockPtr \<Rightarrow> (cint \<Rightarrow> emitted) \<Rightarrow> nat \<Rightarrow> cint \<Rightarrow> nat \<Rightarrow> emitted list" where
  "jumpTableCases e f 0 v l = []"
| "jumpTableCases e f (Suc 0) v l = [f v, DefineLabel e]"
| "jumpTableCases e f (Suc (Suc n)) v l =
     [f v, Ins_J INS_b e, DefineLabel (Some l)] @ jumpTableCases e f (Suc n) (v + 1) (l + 1)"

text \<open>Bytes of code of a stream entry: ``an arm64 instruction is 4 bytes'' (comment in
  \<^verbatim>\<open>EmitBegin\<close>); the definition of a label occupies none.\<close>

fun insBytes :: "emitted \<Rightarrow> nat" where
  "insBytes (DefineLabel l) = 0"
| "insBytes x = 4"

definition codeBytes :: "emitted list \<Rightarrow> nat" where
  "codeBytes xs = sum_list (map insBytes xs)"

text \<open>The meaning of the dispatch sequence, as the comment of \<^verbatim>\<open>EmitBegin\<close> gives it:
  \<^verbatim>\<open>adr Xd, label\<close> loads the address of the label, \<^verbatim>\<open>add Xd, Xn, Xm, lsl #imm\<close> adds
  \<open>Xm\<close> shifted left by \<open>imm\<close> to \<open>Xn\<close>, and \<^verbatim>\<open>br Xn\<close> branches to the address in \<open>Xn\<close>.
  \<open>dispatchTarget addr xs regs\<close> is the address branched to when \<open>xs\<close> runs from the
  register contents \<open>regs\<close>, with \<open>addr\<close> the addresses of the labels.\<close>

datatype effect = Next "regNumber \<Rightarrow> 64 word" | Branch "64 word"

fun exec1 ::
  "(BasicBlockPtr \<Rightarrow> 64 word) \<Rightarrow> emitted \<Rightarrow> (regNumber \<Rightarrow> 64 word) \<Rightarrow> effect option" where
  "exec1 addr (Ins_R_L ins attr l r) regs =
     (if ins = INS_adr then Some (Next (regs(r := addr l))) else None)"
| "exec1 addr (Ins_R_R_R_I ins attr d n m imm opt) regs =
     (if ins = INS_add \<and> opt = INS_OPTS_LSL
      then Some (Next (regs(d := regs n + push_bit (unat imm) (regs m)))) else None)"
| "exec1 addr (Ins_R ins attr r) regs =
     (if ins = INS_br then Some (Branch (regs r)) else None)"
| "exec1 addr (DefineLabel l) regs = Some (Next regs)"
| "exec1 addr x regs = None"

fun dispatchTarget ::
  "(BasicBlockPtr \<Rightarrow> 64 word) \<Rightarrow> emitted list \<Rightarrow> (regNumber \<Rightarrow> 64 word) \<Rightarrow> 64 word option" where
  "dispatchTarget addr [] regs = None"
| "dispatchTarget addr (x # xs) regs =
     (case exec1 addr x regs of
        None \<Rightarrow> None
      | Some (Next regs') \<Rightarrow> dispatchTarget addr xs regs'
      | Some (Branch t) \<Rightarrow> Some t)"

subsection \<open>Sample tables and nodes\<close>

text \<open>An instance of the tables, on which the theorems below are exercised: element sizes of
  the base types, a lane count as the immediate bound, and stand-in opcodes.\<close>

fun sample_typeSize :: "var_types \<Rightarrow> nat" where
  "sample_typeSize TYP_BYTE = 1" | "sample_typeSize TYP_UBYTE = 1"
| "sample_typeSize TYP_SHORT = 2" | "sample_typeSize TYP_USHORT = 2"
| "sample_typeSize TYP_INT = 4" | "sample_typeSize TYP_UINT = 4"
| "sample_typeSize TYP_LONG = 8" | "sample_typeSize TYP_ULONG = 8"
| "sample_typeSize TYP_FLOAT = 4" | "sample_typeSize TYP_DOUBLE = 8"

fun sample_attr :: "nat \<Rightarrow> emitAttr" where
  "sample_attr n = (if n = 1 then EA_1BYTE else if n = 2 then EA_2BYTE
                    else if n = 4 then EA_4BYTE else if n = 8 then EA_8BYTE else EA_16BYTE)"

definition sample_lookupIns :: "NamedIntrinsic \<Rightarrow> var_types \<Rightarrow> instruction" where
  "sample_lookupIns i t = INS_other 1"

definition sample_upperBound :: "NamedIntrinsic \<Rightarrow> nat \<Rightarrow> var_types \<Rightarrow> cint" where
  "sample_upperBound i sz t = of_nat (sz div sample_typeSize t)"

definition sample_numArgs :: "NamedIntrinsic \<Rightarrow> int" where
  "sample_numArgs i = 2"

definition sample_isImmOp :: "NamedIntrinsic \<Rightarrow> GenTree \<Rightarrow> bool" where
  "sample_isImmOp i t = True"

definition sample_multipleIns :: "NamedIntrinsic \<Rightarrow> bool" where
  "sample_multipleIns i = False"

definition sample_attrOfType :: "var_types \<Rightarrow> emitAttr" where
  "sample_attrOfType t = sample_attr (sample_typeSize t)"

definition sample_genTypeSize :: "var_types \<Rightarrow> cint" where
  "sample_genTypeSize t = of_nat (sample_typeSize t)"

definition sample_simdOpt :: "emitAttr \<Rightarrow> var_types \<Rightarrow> insOpts" where
  "sample_simdOpt a t = (if a = EA_8BYTE then INS_OPTS_2S else INS_OPTS_4S)"

definition sample_isFloating :: "var_types \<Rightarrow> bool" where
  "sample_isFloating t = (t = TYP_FLOAT \<or> t = TYP_DOUBLE)"

definition sample_ext :: externals where
  "sample_ext =
     \<lparr>lookupIns = sample_lookupIns, lookupImmUpperBound = sample_upperBound,
      lookupNumArgs = sample_numArgs, isImmOp = sample_isImmOp,
      GeneratesMultipleIns = sample_multipleIns,
      emitActualTypeSize = sample_attrOfType, emitTypeSize = sample_attrOfType,
      EA_SIZE = sample_attr, genTypeSize = sample_genTypeSize,
      genGetSimdInsOpt = sample_simdOpt, varTypeIsFloating = sample_isFloating\<rparr>"

text \<open>A node for a 16-byte vector of the given base type with target register \<open>t\<close>, an operand
  held in register \<open>r\<close>, and operands that are contained constants.\<close>

definition sample_node ::
  "NamedIntrinsic \<Rightarrow> var_types \<Rightarrow> regNumber \<Rightarrow> bool \<Rightarrow> GenTreeHWIntrinsic" where
  "sample_node i t r rmw =
     \<lparr>gtRegNum = r, gtHWIntrinsicId = i, gtSIMDSize = 16, gtSIMDBaseType = t,
      isRMWHWIntrinsic = rmw, GetSingleTempReg = REG 9\<rparr>"

definition inReg :: "nat \<Rightarrow> GenTree" where
  "inReg r = \<lparr>regNum = REG r, contained = NotContained\<rparr>"

definition intConst :: "ssize_t \<Rightarrow> GenTree" where
  "intConst v = \<lparr>regNum = REG_NA, contained = ContainedInt v\<rparr>"

definition dblConst :: "double \<Rightarrow> GenTree" where
  "dblConst d = \<lparr>regNum = REG_NA, contained = ContainedDbl d\<rparr>"

definition empty_state :: cg_state where
  "empty_state = \<lparr>stream = [], nextLabel = 0, produced = []\<rparr>"

text \<open>A case body that emits one instruction carrying the immediate, label addresses and
  register contents for running a dispatch sequence.\<close>

definition sample_case :: "cint \<Rightarrow> emitted" where
  "sample_case k = Ins_R_R_I (INS_other 1) EA_4BYTE (REG 0) (REG 1) (scast k) INS_OPTS_NONE"

definition sample_body :: "cint \<Rightarrow> cg_state \<Rightarrow> cg_state" where
  "sample_body k = emit (sample_case k)"

definition sample_addr :: "BasicBlockPtr \<Rightarrow> 64 word" where
  "sample_addr l = (case l of None \<Rightarrow> 0 | Some n \<Rightarrow> 4096 + 256 * of_nat n)"

definition sample_regs :: "64 word \<Rightarrow> regNumber \<Rightarrow> 64 word" where
  "sample_regs x r = (if r = REG 5 then x else 0)"

text \<open>Two helper states: one in the jump-table mode with three cases, and the one the
  constructor builds for the constant 3.\<close>

definition sample_jump_helper :: HWIntrinsicImmOpHelper where
  "sample_jump_helper =
     \<lparr>endLabel = Some 0, nonZeroLabel = None, immValue = 0, immUpperBound = 3,
      nonConstImmReg = REG 5, branchTargetReg = REG 9\<rparr>"

definition sample_const_helper :: HWIntrinsicImmOpHelper where
  "sample_const_helper =
     \<lparr>endLabel = None, nonZeroLabel = None, immValue = 3, immUpperBound = 4,
      nonConstImmReg = REG_NA, branchTargetReg = REG_NA\<rparr>"

text \<open>A decomposed node with the given operation, category, base type, arity and operands.\<close>

definition sample_intrin ::
  "NamedIntrinsic \<Rightarrow> HWIntrinsicCategory \<Rightarrow> var_types \<Rightarrow> int
     \<Rightarrow> GenTree option \<Rightarrow> GenTree option \<Rightarrow> GenTree option \<Rightarrow> bool \<Rightarrow> HWIntrinsic" where
  "sample_intrin i c t n a b d td =
     \<lparr>intrin_id = i, category = c, baseType = t, numOperands = n,
      op1 = a, op2 = b, op3 = d, IsTableDriven = td\<rparr>"

section \<open>Properties\<close>

lemmas sample_defs =
  sample_ext_def sample_lookupIns_def sample_upperBound_def sample_numArgs_def
  sample_isImmOp_def sample_multipleIns_def sample_attrOfType_def sample_genTypeSize_def
  sample_simdOpt_def sample_isFloating_def

subsection \<open>The loop over the cases\<close>

lemma forCases_const:
  assumes "nonConstImmReg h = REG_NA" and "immUpperBound h = immValue h + 1"
  shows "forCases body h s = (Inr (h\<lparr>immValue := immValue h + 1\<rparr>), body (immValue h) s)"
proof -
  have nd: "\<not> Done h" using assms by (simp add: Done_def)
  have e: "EmitCaseEnd h (body (ImmValue h) s)
             = (Inr (h\<lparr>immValue := immValue h + 1\<rparr>), body (immValue h) s)"
    using nd assms by (simp add: EmitCaseEnd_def NonConstImmOp_def ImmValue_def)
  have d: "Done (h\<lparr>immValue := immValue h + 1\<rparr>)" using assms by (simp add: Done_def)
  show ?thesis
    by (subst forCases.simps, simp add: nd e, subst forCases.simps, simp add: d)
qed

lemma fold_upt_Suc_shift:
  "fold F [0..<Suc m] s = fold (\<lambda>i. F (Suc i)) [0..<m] (F 0 s)"
proof -
  have "[0..<Suc m] = 0 # map Suc [0..<m]"
    by (simp add: upt_conv_Cons map_Suc_upt del: upt_Suc)
  then show ?thesis by (simp add: fold_map comp_def del: upt_Suc)
qed

lemma unat_remaining_Suc:
  fixes v ub :: cint
  assumes "unat (ub - v) = Suc m"
  shows "v \<noteq> ub" and "unat (ub - (v + 1)) = m"
proof -
  show ne: "v \<noteq> ub" using assms by auto
  have nz: "ub - v \<noteq> 0" using ne by simp
  have e: "ub - (v + 1) = (ub - v) - 1" by simp
  have "unat ((ub - v) - 1) = unat (ub - v) - 1" using nz by (rule unat_minus_one)
  then show "unat (ub - (v + 1)) = m" unfolding e using assms by simp
qed

lemma forCases_unroll:
  "unat (immUpperBound h - immValue h) = n \<Longrightarrow>
   forCases body h s =
     (Inr (h\<lparr>immValue := immUpperBound h\<rparr>),
      fold (\<lambda>i st. snd (EmitCaseEnd (h\<lparr>immValue := immValue h + of_nat i\<rparr>)
                            (body (immValue h + of_nat i) st))) [0..<n] s)"
proof (induction n arbitrary: h s)
  case 0
  then have eq: "immValue h = immUpperBound h" by (simp add: unat_eq_0)
  then have d: "Done h" by (simp add: Done_def)
  have "h\<lparr>immValue := immUpperBound h\<rparr> = h" using eq by (cases h) simp
  then show ?case by (subst forCases.simps) (simp add: d)
next
  case (Suc m)
  let ?v = "immValue h" and ?ub = "immUpperBound h"
  have ne: "?v \<noteq> ?ub" and m: "unat (?ub - (?v + 1)) = m"
    using unat_remaining_Suc[OF Suc.prems] by auto
  have nd: "\<not> Done h" using ne by (simp add: Done_def)
  define h1 where "h1 = h\<lparr>immValue := ?v + 1\<rparr>"
  define s1 where "s1 = snd (EmitCaseEnd h (body ?v s))"
  have e: "EmitCaseEnd h (body (ImmValue h) s) = (Inr h1, s1)"
    using nd by (simp add: EmitCaseEnd_def ImmValue_def h1_def s1_def Let_def)
  have m1: "unat (immUpperBound h1 - immValue h1) = m" using m by (simp add: h1_def)
  have step: "forCases body h s = forCases body h1 s1"
    by (subst forCases.simps) (simp add: nd e)
  show ?case
    unfolding step Suc.IH[OF m1] fold_upt_Suc_shift
    by (simp add: s1_def h1_def add.assoc)
qed

lemma forCases_jumpTable:
  "NonConstImmOp h \<Longrightarrow> \<not> TestImmOpZeroOrOne h \<Longrightarrow>
   unat (immUpperBound h - immValue h) = n \<Longrightarrow>
   forCases (\<lambda>k. emit (f k)) h s =
     (Inr (h\<lparr>immValue := immUpperBound h\<rparr>),
      s\<lparr>stream := stream s @ jumpTableCases (endLabel h) f n (immValue h) (nextLabel s),
        nextLabel := nextLabel s + (n - 1)\<rparr>)"
proof (induction n arbitrary: h s)
  case 0
  then have eq: "immValue h = immUpperBound h" by (simp add: unat_eq_0)
  then have d: "Done h" by (simp add: Done_def)
  have "h\<lparr>immValue := immUpperBound h\<rparr> = h" using eq by (cases h) simp
  then show ?case by (subst forCases.simps) (simp add: d)
next
  case (Suc m)
  let ?v = "immValue h" and ?ub = "immUpperBound h"
  have ne: "?v \<noteq> ?ub" and m: "unat (?ub - (?v + 1)) = m"
    using unat_remaining_Suc[OF Suc.prems(3)] by auto
  have nd: "\<not> Done h" using ne by (simp add: Done_def)
  have last: "(?v + 1 = ?ub) = (m = 0)" using m by (auto simp: unat_eq_0)
  define h1 where "h1 = h\<lparr>immValue := ?v + 1\<rparr>"
  have p1: "NonConstImmOp h1" "\<not> TestImmOpZeroOrOne h1"
    using Suc.prems by (simp_all add: h1_def NonConstImmOp_def TestImmOpZeroOrOne_def)
  have m1: "unat (immUpperBound h1 - immValue h1) = m" using m by (simp add: h1_def)
  have fin: "h1\<lparr>immValue := immUpperBound h1\<rparr> = h\<lparr>immValue := ?ub\<rparr>" by (simp add: h1_def)
  show ?case
  proof (cases m)
    case 0
    have e: "EmitCaseEnd h (emit (f (ImmValue h)) s) =
               (Inr h1, s\<lparr>stream := stream s @ [f ?v, DefineLabel (endLabel h)]\<rparr>)"
      using nd Suc.prems(1) last 0
      by (simp add: EmitCaseEnd_def ImmValue_def h1_def emit_def genDefineInlineTempLabel_def)
    have d1: "Done h1" using last 0 by (simp add: Done_def h1_def)
    show ?thesis
      apply (subst forCases.simps)
      apply (simp add: nd e)
      apply (subst forCases.simps)
      apply (simp add: d1 0)
      apply (simp add: h1_def d1[unfolded Done_def h1_def, simplified])
      done
  next
    case (Suc m')
    have e: "EmitCaseEnd h (emit (f (ImmValue h)) s) =
               (Inr h1, s\<lparr>stream := stream s @ [f ?v, Ins_J INS_b (endLabel h),
                                                  DefineLabel (Some (nextLabel s))],
                          nextLabel := nextLabel s + 1\<rparr>)"
      using nd Suc.prems(1,2) last Suc
      by (simp add: EmitCaseEnd_def ImmValue_def h1_def emit_def genDefineInlineTempLabel_def
            genCreateTempLabel_def)
    show ?thesis
      apply (subst forCases.simps)
      apply (simp add: nd e)
      apply (subst Suc.IH[OF p1 m1])
      apply (simp add: fin Suc)
      apply (simp add: h1_def)
      done
  qed
qed

subsection \<open>The helper's constructor and the whole construct, by mode\<close>

lemma helper_new_const:
  assumes "isImmOp ext (gtHWIntrinsicId node) immOp" and "contained immOp = ContainedInt v"
  shows "HWIntrinsicImmOpHelper_new ext immOp node s =
           (Inr \<lparr>endLabel = None, nonZeroLabel = None, immValue = ucast v,
                 immUpperBound = ucast v + 1, nonConstImmReg = REG_NA,
                 branchTargetReg = REG_NA\<rparr>, s)"
  using assms by (simp add: HWIntrinsicImmOpHelper_new_def)

lemma forEachImmCase_const:
  assumes "isImmOp ext (gtHWIntrinsicId node) immOp" and "contained immOp = ContainedInt v"
  shows "forEachImmCase ext (Some immOp) node body s = (Inr (), body (ucast v) s)"
  by (simp add: forEachImmCase_def helper_new_const[OF assms] EmitBegin_def NonConstImmOp_def
        forCases_const)

lemma helper_new_zeroOrOne:
  assumes "isImmOp ext (gtHWIntrinsicId node) immOp"
    and "\<not> isContainedIntOrIImmed immOp"
    and "lookupImmUpperBound ext (gtHWIntrinsicId node) (gtSIMDSize node) (gtSIMDBaseType node) = 2"
  shows "HWIntrinsicImmOpHelper_new ext immOp node s =
           (Inr \<lparr>endLabel = Some (nextLabel s + 1), nonZeroLabel = Some (nextLabel s),
                 immValue = 0, immUpperBound = 2, nonConstImmReg = regNum immOp,
                 branchTargetReg = REG_NA\<rparr>, s\<lparr>nextLabel := nextLabel s + 2\<rparr>)"
  using assms
  by (simp add: HWIntrinsicImmOpHelper_new_def isContainedIntOrIImmed_def
        TestImmOpZeroOrOne_def genCreateTempLabel_def split: containment.splits)

lemma helper_new_jumpTable:
  assumes "isImmOp ext (gtHWIntrinsicId node) immOp"
    and "\<not> isContainedIntOrIImmed immOp"
    and "lookupImmUpperBound ext (gtHWIntrinsicId node) (gtSIMDSize node) (gtSIMDBaseType node) = ub"
    and "ub \<noteq> 2"
    and "\<not> GeneratesMultipleIns ext (gtHWIntrinsicId node)"
  shows "HWIntrinsicImmOpHelper_new ext immOp node s =
           (Inr \<lparr>endLabel = Some (nextLabel s), nonZeroLabel = None,
                 immValue = 0, immUpperBound = ub, nonConstImmReg = regNum immOp,
                 branchTargetReg = GetSingleTempReg node\<rparr>, s\<lparr>nextLabel := nextLabel s + 1\<rparr>)"
  using assms
  by (simp add: HWIntrinsicImmOpHelper_new_def isContainedIntOrIImmed_def
        TestImmOpZeroOrOne_def genCreateTempLabel_def split: containment.splits)

lemma forEachImmCase_zeroOrOne:
  assumes "isImmOp ext (gtHWIntrinsicId node) immOp"
    and "\<not> isContainedIntOrIImmed immOp"
    and "regNum immOp \<noteq> REG_NA"
    and "lookupImmUpperBound ext (gtHWIntrinsicId node) (gtSIMDSize node) (gtSIMDBaseType node) = 2"
  shows "forEachImmCase ext (Some immOp) node (\<lambda>k. emit (f k)) s =
           (Inr (),
            s\<lparr>stream := stream s @
                 [Ins_J_R INS_cbnz EA_4BYTE (Some (nextLabel s)) (regNum immOp),
                  DefineLabel (Some (nextLabel s + 2)),
                  f 0,
                  Ins_J INS_b (Some (nextLabel s + 1)),
                  DefineLabel (Some (nextLabel s)),
                  f 1,
                  DefineLabel (Some (nextLabel s + 1))],
              nextLabel := nextLabel s + 3\<rparr>)"
  using assms(3)
  apply (simp add: forEachImmCase_def helper_new_zeroOrOne[OF assms(1,2,4)])
  apply (subst forCases.simps)
  apply (simp add: Done_def ImmValue_def)
  apply (subst forCases.simps)
  apply (simp add: Done_def ImmValue_def EmitCaseEnd_def NonConstImmOp_def TestImmOpZeroOrOne_def)
  apply (subst forCases.simps)
  apply (simp add: Done_def ImmValue_def EmitCaseEnd_def NonConstImmOp_def TestImmOpZeroOrOne_def
          EmitBegin_def genCreateTempLabel_def genDefineInlineTempLabel_def emit_def)
  done

lemma forEachImmCase_jumpTable:
  assumes "isImmOp ext (gtHWIntrinsicId node) immOp"
    and "\<not> isContainedIntOrIImmed immOp"
    and "regNum immOp \<noteq> REG_NA"
    and "lookupImmUpperBound ext (gtHWIntrinsicId node) (gtSIMDSize node) (gtSIMDBaseType node) = ub"
    and "ub \<noteq> 2"
    and "\<not> GeneratesMultipleIns ext (gtHWIntrinsicId node)"
  shows "forEachImmCase ext (Some immOp) node (\<lambda>k. emit (f k)) s =
           (Inr (),
            s\<lparr>stream := stream s @
                 [Ins_R_L INS_adr EA_8BYTE (Some (nextLabel s + 1)) (GetSingleTempReg node),
                  Ins_R_R_R_I INS_add EA_8BYTE (GetSingleTempReg node) (GetSingleTempReg node)
                    (regNum immOp) 3 INS_OPTS_LSL,
                  Ins_R INS_br EA_8BYTE (GetSingleTempReg node),
                  DefineLabel (Some (nextLabel s + 1))] @
                 jumpTableCases (Some (nextLabel s)) f (unat ub) 0 (nextLabel s + 2),
              nextLabel := nextLabel s + 2 + (unat ub - 1)\<rparr>)"
proof -
  let ?h = "\<lparr>endLabel = Some (nextLabel s), nonZeroLabel = None,
                 immValue = 0, immUpperBound = ub, nonConstImmReg = regNum immOp,
                 branchTargetReg = GetSingleTempReg node\<rparr>"
  have a: "NonConstImmOp ?h" using assms(3) by (simp add: NonConstImmOp_def)
  have b: "\<not> TestImmOpZeroOrOne ?h" using assms(5) by (simp add: TestImmOpZeroOrOne_def)
  have c: "unat (immUpperBound ?h - immValue ?h) = unat ub" by simp
  show ?thesis
    apply (simp only: forEachImmCase_def helper_new_jumpTable[OF assms(1,2,4,5,6)] option.case
             prod.case sum.case)
    apply (subst forCases_jumpTable[OF a b c])
    apply (simp add: EmitBegin_def a b genCreateTempLabel_def genDefineInlineTempLabel_def emit_def)
    done
qed

lemma sint_ucast_low:
  fixes v :: ssize_t
  assumes "- (2 ^ 31) \<le> sint v" "sint v < 2 ^ 31"
  shows "sint (ucast v :: cint) = sint v"
proof -
  have d: "is_down (ucast :: ssize_t \<Rightarrow> cint)" by (simp add: is_down)
  have "(ucast v :: cint) = scast v" by (rule fun_cong[OF down_cast_same[OF d]])
  also have "\<dots> = word_of_int (sint v)" by (rule scast_eq)
  finally have e: "(ucast v :: cint) = word_of_int (sint v)" .
  have "sint (word_of_int (sint v) :: cint) = signed_take_bit (LENGTH(32) - 1) (sint v)"
    by (rule sint_sbintrunc')
  also have "\<dots> = sint v" using assms by (simp add: signed_take_bit_int_eq_self)
  finally show ?thesis unfolding e .
qed

subsection \<open>Position and size of the cases of a jump table\<close>

lemma jumpTableCases_nth:
  "k < n \<Longrightarrow> jumpTableCases e f n v l ! (3 * k) = f (v + of_nat k)"
proof (induction e f n v l arbitrary: k rule: jumpTableCases.induct)
  case (1 e f v l)
  then show ?case by simp
next
  case (2 e f v l)
  then show ?case by simp
next
  case (3 e f n v l)
  show ?case
  proof (cases k)
    case 0
    then show ?thesis by simp
  next
    case (Suc k')
    then have "k' < Suc n" using "3.prems" by simp
    from "3.IH"[OF this]
    have "jumpTableCases e f (Suc n) (v + 1) (l + 1) ! (3 * k') = f (v + 1 + of_nat k')" .
    moreover have "v + 1 + of_nat k' = v + of_nat (Suc k')" by simp
    moreover have "3 * k = Suc (Suc (Suc (3 * k')))" using Suc by simp
    ultimately show ?thesis by (simp add: Suc)
  qed
qed

lemma codeBytes_Cons: "codeBytes (x # xs) = insBytes x + codeBytes xs"
  by (simp add: codeBytes_def)

lemma codeBytes_Nil: "codeBytes [] = 0"
  by (simp add: codeBytes_def)

lemma jumpTableCases_bytes:
  "k < n \<Longrightarrow> (\<And>x. insBytes (f x) = 4) \<Longrightarrow>
   codeBytes (take (3 * k) (jumpTableCases e f n v l)) = 8 * k"
proof (induction e f n v l arbitrary: k rule: jumpTableCases.induct)
  case (1 e f v l)
  then show ?case by simp
next
  case (2 e f v l)
  then show ?case by (simp add: codeBytes_Nil)
next
  case (3 e f n v l)
  show ?case
  proof (cases k)
    case 0
    then show ?thesis by (simp add: codeBytes_Nil)
  next
    case (Suc k')
    then have "k' < Suc n" using "3.prems" by simp
    from "3.IH"[OF this "3.prems"(2)] have ih: "codeBytes (take (3 * k') (jumpTableCases e f (Suc n) (v + 1) (l + 1))) = 8 * k'" .
    have "3 * k = Suc (Suc (Suc (3 * k')))" using Suc by simp
    then show ?thesis
      using ih "3.prems"(2) by (simp add: codeBytes_Cons)
  qed
qed

lemma jumpTableCases_length:
  "0 < n \<Longrightarrow> length (jumpTableCases e f n v l) = 3 * n - 1"
  by (induction e f n v l rule: jumpTableCases.induct) auto

section \<open>The claims\<close>

subsection \<open>C3: a constant immediate operand\<close>

text \<open>C3. When the immediate operand is a contained compile-time constant \<open>v\<close>, the helper is
  built without touching the code generator's state, its current value is \<open>(int) v\<close> (equal to
  \<open>v\<close> whenever \<open>v\<close> is in the range of \<^verbatim>\<open>int\<close>) and its upper bound is the current value
  plus one; \<open>EmitBegin\<close> and \<open>EmitCaseEnd\<close> emit nothing; the loop runs the body exactly once,
  with that value, and is then done; so the whole construct emits exactly the one instruction
  of the body.\<close>

theorem constant_operand_elides_dispatch:
  fixes v :: ssize_t
  defines "h \<equiv> \<lparr>endLabel = None, nonZeroLabel = None, immValue = ucast v,
                  immUpperBound = ucast v + 1, nonConstImmReg = REG_NA,
                  branchTargetReg = REG_NA\<rparr>"
  assumes imm: "isImmOp ext (gtHWIntrinsicId node) immOp"
    and con: "contained immOp = ContainedInt v"
  shows "HWIntrinsicImmOpHelper_new ext immOp node s = (Inr h, s)
       \<and> ImmValue h = ucast v \<and> immUpperBound h = ImmValue h + 1
       \<and> (- (2 ^ 31) \<le> sint v \<and> sint v < 2 ^ 31 \<longrightarrow> sint (ImmValue h) = sint v)
       \<and> EmitBegin h s' = s'
       \<and> EmitCaseEnd h s' = (Inr (h\<lparr>immValue := ImmValue h + 1\<rparr>), s')
       \<and> forCases body h (EmitBegin h s) = (Inr (h\<lparr>immValue := ImmValue h + 1\<rparr>), body (ImmValue h) s)
       \<and> Done (h\<lparr>immValue := ImmValue h + 1\<rparr>)
       \<and> forEachImmCase ext (Some immOp) node body s = (Inr (), body (ucast v) s)
       \<and> stream (snd (forEachImmCase ext (Some immOp) node (\<lambda>k. emit (f k)) s))
           = stream s @ [f (ucast v)]"
proof -
  have nc: "nonConstImmReg h = REG_NA" and ub: "immUpperBound h = immValue h + 1"
    and iv: "immValue h = ucast v"
    by (simp_all add: h_def)
  have 1: "HWIntrinsicImmOpHelper_new ext immOp node s = (Inr h, s)"
    unfolding h_def by (rule helper_new_const[OF imm con])
  have 2: "ImmValue h = ucast v" by (simp add: ImmValue_def iv)
  have 3: "immUpperBound h = ImmValue h + 1" by (simp add: ImmValue_def ub)
  have 4: "- (2 ^ 31) \<le> sint v \<and> sint v < 2 ^ 31 \<longrightarrow> sint (ImmValue h) = sint v"
    unfolding 2 by (simp add: sint_ucast_low)
  have 5: "\<And>t. EmitBegin h t = t" by (simp add: EmitBegin_def NonConstImmOp_def nc)
  have nd: "\<not> Done h" by (simp add: Done_def ub)
  have 6: "EmitCaseEnd h s' = (Inr (h\<lparr>immValue := ImmValue h + 1\<rparr>), s')"
    using nd by (simp add: EmitCaseEnd_def NonConstImmOp_def nc ImmValue_def)
  have 7: "forCases body h (EmitBegin h s)
             = (Inr (h\<lparr>immValue := ImmValue h + 1\<rparr>), body (ImmValue h) s)"
    unfolding 5 ImmValue_def by (rule forCases_const[OF nc ub])
  have 8: "Done (h\<lparr>immValue := ImmValue h + 1\<rparr>)" by (simp add: Done_def ImmValue_def ub)
  have 9: "\<And>b. forEachImmCase ext (Some immOp) node b s = (Inr (), b (ucast v) s)"
    by (rule forEachImmCase_const[OF imm con])
  have 10: "stream (snd (forEachImmCase ext (Some immOp) node (\<lambda>k. emit (f k)) s))
           = stream s @ [f (ucast v)]"
    unfolding 9 by (simp add: emit_def)
  show ?thesis using 1 2 3 4 5 6 7 8 9 10 by blast
qed

theorem constant_operand_elides_dispatch_witness:
  "sample_isImmOp NI_AdvSimd_Extract (intConst 3)
   \<and> contained (intConst 3) = ContainedInt 3
   \<and> - (2 ^ 31) \<le> sint (3 :: ssize_t) \<and> sint (3 :: ssize_t) < 2 ^ 31
   \<and> forEachImmCase sample_ext (Some (intConst 3))
        (sample_node NI_AdvSimd_Extract TYP_INT (REG 0) False)
        (\<lambda>k. emit (Ins_R_R_I (INS_other 1) EA_4BYTE (REG 0) (REG 1) (scast k) INS_OPTS_NONE))
        empty_state
      = (Inr (), \<lparr>stream = [Ins_R_R_I (INS_other 1) EA_4BYTE (REG 0) (REG 1) 3 INS_OPTS_NONE],
                  nextLabel = 0, produced = []\<rparr>)"
  using constant_operand_elides_dispatch
          [of sample_ext "sample_node NI_AdvSimd_Extract TYP_INT (REG 0) False" "intConst 3" 3
              empty_state empty_state
              "\<lambda>k. emit (Ins_R_R_I (INS_other 1) EA_4BYTE (REG 0) (REG 1) (scast k) INS_OPTS_NONE)"]
  by (simp add: sample_defs sample_node_def intConst_def empty_state_def emit_def)

subsection \<open>C4: a non-constant operand that is 0 or 1\<close>

text \<open>C4. For a non-constant immediate operand (held in a register) whose upper bound is exactly
  2, the constructor makes the non-zero label and then the end label, and the whole construct
  emits: one \<^verbatim>\<open>cbnz\<close> to the non-zero label on the operand's register, the definition of the
  begin label, the case for 0, \<^verbatim>\<open>b endLabel\<close>, the definition of the non-zero label
  immediately before the case for 1, that case, and the definition of the end label after
  it. So there is exactly one conditional branch and exactly two case instructions.\<close>

theorem zero_or_one_dispatch:
  assumes "isImmOp ext (gtHWIntrinsicId node) immOp"
    and "\<not> isContainedIntOrIImmed immOp"
    and "regNum immOp \<noteq> REG_NA"
    and "lookupImmUpperBound ext (gtHWIntrinsicId node) (gtSIMDSize node) (gtSIMDBaseType node) = 2"
  shows "HWIntrinsicImmOpHelper_new ext immOp node s =
           (Inr \<lparr>endLabel = Some (nextLabel s + 1), nonZeroLabel = Some (nextLabel s),
                 immValue = 0, immUpperBound = 2, nonConstImmReg = regNum immOp,
                 branchTargetReg = REG_NA\<rparr>, s\<lparr>nextLabel := nextLabel s + 2\<rparr>)
       \<and> forEachImmCase ext (Some immOp) node (\<lambda>k. emit (f k)) s =
           (Inr (),
            s\<lparr>stream := stream s @
                 [Ins_J_R INS_cbnz EA_4BYTE (Some (nextLabel s)) (regNum immOp),
                  DefineLabel (Some (nextLabel s + 2)),
                  f 0,
                  Ins_J INS_b (Some (nextLabel s + 1)),
                  DefineLabel (Some (nextLabel s)),
                  f 1,
                  DefineLabel (Some (nextLabel s + 1))],
              nextLabel := nextLabel s + 3\<rparr>)"
  using helper_new_zeroOrOne[OF assms(1,2,4)] forEachImmCase_zeroOrOne[OF assms]
  by simp

theorem zero_or_one_dispatch_witness:
  "sample_isImmOp NI_AdvSimd_Insert (inReg 5)
   \<and> \<not> isContainedIntOrIImmed (inReg 5)
   \<and> regNum (inReg 5) \<noteq> REG_NA
   \<and> sample_upperBound NI_AdvSimd_Insert 16 TYP_LONG = 2
   \<and> forEachImmCase sample_ext (Some (inReg 5)) (sample_node NI_AdvSimd_Insert TYP_LONG (REG 0) True)
        sample_body empty_state =
       (Inr (),
        \<lparr>stream = [Ins_J_R INS_cbnz EA_4BYTE (Some 0) (REG 5),
                   DefineLabel (Some 2),
                   sample_case 0,
                   Ins_J INS_b (Some 1),
                   DefineLabel (Some 0),
                   sample_case 1,
                   DefineLabel (Some 1)],
         nextLabel = 3, produced = []\<rparr>)"
  using zero_or_one_dispatch
          [of sample_ext "sample_node NI_AdvSimd_Insert TYP_LONG (REG 0) True" "inReg 5"
              empty_state sample_case]
  by (simp add: sample_defs sample_node_def inReg_def empty_state_def isContainedIntOrIImmed_def
        sample_body_def[abs_def])

subsection \<open>C5: the number of cases and the branches between them\<close>

text \<open>C5, as amended. \<open>Done\<close> holds exactly when the current value equals the upper bound;
  \<open>EmitCaseEnd\<close>, called when not done, increments the current value by exactly one; the loop
  ends with the current value at the upper bound, after running the body once for each of the
  values from the initial current value up to the upper bound, each time followed by
  \<open>EmitCaseEnd\<close>: the number of case bodies is the upper bound minus the initial current value
  (in 32-bit arithmetic), which is the upper bound itself when the initial value is 0, as it is
  for a non-constant operand. For a non-constant operand \<open>EmitCaseEnd\<close> emits, after a case that
  is not the last, exactly one \<^verbatim>\<open>b endLabel\<close> followed by the definition of a label, and after
  the last case only the definition of the end label; for a constant operand it emits
  nothing.\<close>

theorem case_count_and_branches:
  fixes h :: HWIntrinsicImmOpHelper
  defines "n \<equiv> unat (immUpperBound h - ImmValue h)"
  shows "Done h = (ImmValue h = immUpperBound h)
       \<and> (\<not> Done h \<longrightarrow> fst (EmitCaseEnd h s) = Inr (h\<lparr>immValue := ImmValue h + 1\<rparr>))
       \<and> forCases body h s =
           (Inr (h\<lparr>immValue := immUpperBound h\<rparr>),
            fold (\<lambda>i st. snd (EmitCaseEnd (h\<lparr>immValue := ImmValue h + of_nat i\<rparr>)
                                  (body (ImmValue h + of_nat i) st))) [0..<n] s)
       \<and> length [0..<n] = unat (immUpperBound h - ImmValue h)
       \<and> (ImmValue h = 0 \<longrightarrow> n = unat (immUpperBound h))
       \<and> (NonConstImmOp h \<and> \<not> Done h \<longrightarrow>
            stream (snd (EmitCaseEnd h s)) =
              stream s @
              (if ImmValue h + 1 = immUpperBound h
               then [DefineLabel (endLabel h)]
               else [Ins_J INS_b (endLabel h),
                     DefineLabel (if TestImmOpZeroOrOne h then nonZeroLabel h
                                  else Some (nextLabel s))]))
       \<and> (\<not> NonConstImmOp h \<longrightarrow> snd (EmitCaseEnd h s) = s)"
proof -
  have 1: "Done h = (ImmValue h = immUpperBound h)" by (simp add: Done_def ImmValue_def)
  have 2: "\<not> Done h \<longrightarrow> fst (EmitCaseEnd h s) = Inr (h\<lparr>immValue := ImmValue h + 1\<rparr>)"
    by (simp add: EmitCaseEnd_def ImmValue_def Let_def)
  have 3: "forCases body h s =
           (Inr (h\<lparr>immValue := immUpperBound h\<rparr>),
            fold (\<lambda>i st. snd (EmitCaseEnd (h\<lparr>immValue := ImmValue h + of_nat i\<rparr>)
                                  (body (ImmValue h + of_nat i) st))) [0..<n] s)"
    unfolding ImmValue_def n_def by (rule forCases_unroll[OF refl])
  have 4: "length [0..<n] = unat (immUpperBound h - ImmValue h)" by (simp add: n_def)
  have 5: "ImmValue h = 0 \<longrightarrow> n = unat (immUpperBound h)" by (simp add: n_def)
  have 6: "NonConstImmOp h \<and> \<not> Done h \<longrightarrow>
            stream (snd (EmitCaseEnd h s)) =
              stream s @
              (if ImmValue h + 1 = immUpperBound h
               then [DefineLabel (endLabel h)]
               else [Ins_J INS_b (endLabel h),
                     DefineLabel (if TestImmOpZeroOrOne h then nonZeroLabel h
                                  else Some (nextLabel s))])"
    by (simp add: EmitCaseEnd_def ImmValue_def genDefineInlineTempLabel_def emit_def
          genCreateTempLabel_def)
  have 7: "\<not> NonConstImmOp h \<longrightarrow> snd (EmitCaseEnd h s) = s"
    by (simp add: EmitCaseEnd_def)
  show ?thesis using 1 2 3 4 5 6 7 by blast
qed

theorem case_count_and_branches_witness:
  "\<not> Done sample_jump_helper \<and> NonConstImmOp sample_jump_helper
   \<and> forCases sample_body sample_jump_helper \<lparr>stream = [], nextLabel = 2, produced = []\<rparr> =
       (Inr (sample_jump_helper\<lparr>immValue := 3\<rparr>),
        \<lparr>stream = [sample_case 0, Ins_J INS_b (Some 0), DefineLabel (Some 2),
                   sample_case 1, Ins_J INS_b (Some 0), DefineLabel (Some 3),
                   sample_case 2, DefineLabel (Some 0)],
         nextLabel = 4, produced = []\<rparr>)
   \<and> stream (snd (EmitCaseEnd sample_jump_helper \<lparr>stream = [], nextLabel = 2, produced = []\<rparr>))
       = [Ins_J INS_b (Some 0), DefineLabel (Some 2)]"
proof -
  have n: "unat (immUpperBound sample_jump_helper - ImmValue sample_jump_helper) = 3" by (simp add: sample_jump_helper_def ImmValue_def)
  have l: "[0..<3::nat] = [0, 1, 2]" by (simp add: eval_nat_numeral)
  have a: "\<not> Done sample_jump_helper" "NonConstImmOp sample_jump_helper" "\<not> TestImmOpZeroOrOne sample_jump_helper" "ImmValue sample_jump_helper = 0"
    by (simp_all add: sample_jump_helper_def Done_def NonConstImmOp_def TestImmOpZeroOrOne_def ImmValue_def)
  note t = case_count_and_branches
             [of sample_jump_helper "\<lparr>stream = [], nextLabel = 2, produced = []\<rparr>" sample_body, unfolded n l]
  have e: "\<And>v s. v \<noteq> 3 \<Longrightarrow> snd (EmitCaseEnd (sample_jump_helper\<lparr>immValue := v\<rparr>) s) =
             (if v + 1 = 3 then s\<lparr>stream := stream s @ [DefineLabel (Some 0)]\<rparr>
              else s\<lparr>stream := stream s @ [Ins_J INS_b (Some 0), DefineLabel (Some (nextLabel s))],
                     nextLabel := nextLabel s + 1\<rparr>)"
    by (simp add: EmitCaseEnd_def sample_jump_helper_def Done_def NonConstImmOp_def TestImmOpZeroOrOne_def
          emit_def genDefineInlineTempLabel_def genCreateTempLabel_def)
  show ?thesis
    using t a by (simp add: e sample_body_def emit_def) (simp add: sample_jump_helper_def)
qed

text \<open>C5 as stated fails for a constant operand other than 0: for the constant 3 the upper
  bound is 4 and exactly one case body is emitted.\<close>

theorem case_count_counterexample:
  "HWIntrinsicImmOpHelper_new sample_ext (intConst 3)
      (sample_node NI_AdvSimd_Extract TYP_INT (REG 0) False) empty_state
     = (Inr sample_const_helper, empty_state)
   \<and> immUpperBound sample_const_helper = 4
   \<and> forCases sample_body sample_const_helper (EmitBegin sample_const_helper empty_state)
     = (Inr (sample_const_helper\<lparr>immValue := 4\<rparr>),
        \<lparr>stream = [sample_case 3], nextLabel = 0, produced = []\<rparr>)
   \<and> length [sample_case 3] \<noteq> unat (immUpperBound sample_const_helper)"
proof -
  have nc: "nonConstImmReg sample_const_helper = REG_NA"
    and ub: "immUpperBound sample_const_helper = immValue sample_const_helper + 1"
    by (simp_all add: sample_const_helper_def)
  have b: "EmitBegin sample_const_helper empty_state = empty_state"
    by (simp add: EmitBegin_def NonConstImmOp_def nc)
  have "HWIntrinsicImmOpHelper_new sample_ext (intConst 3)
          (sample_node NI_AdvSimd_Extract TYP_INT (REG 0) False) empty_state
        = (Inr sample_const_helper, empty_state)"
    by (simp add: HWIntrinsicImmOpHelper_new_def sample_defs sample_node_def intConst_def
          sample_const_helper_def)
  moreover have "forCases sample_body sample_const_helper (EmitBegin sample_const_helper empty_state)
     = (Inr (sample_const_helper\<lparr>immValue := 4\<rparr>),
        \<lparr>stream = [sample_case 3], nextLabel = 0, produced = []\<rparr>)"
    unfolding b forCases_const[OF nc ub]
    by (simp add: sample_const_helper_def sample_body_def emit_def empty_state_def)
  ultimately show ?thesis by (simp add: sample_const_helper_def)
qed

subsection \<open>C1: the branch target of the jump table\<close>

text \<open>The stream of a sample jump table with four cases.\<close>

lemma jumpTableCases_4:
  "jumpTableCases e f 4 v l =
     [f v, Ins_J INS_b e, DefineLabel (Some l),
      f (v + 1), Ins_J INS_b e, DefineLabel (Some (l + 1)),
      f (v + 2), Ins_J INS_b e, DefineLabel (Some (l + 2)),
      f (v + 3), DefineLabel e]"
  by (simp add: eval_nat_numeral add.commute)

lemma sample_jump_table_stream:
  "forEachImmCase sample_ext (Some (inReg 5)) (sample_node NI_AdvSimd_Extract TYP_INT (REG 0) False)
     sample_body empty_state =
   (Inr (),
    \<lparr>stream =
       [Ins_R_L INS_adr EA_8BYTE (Some 1) (REG 9),
        Ins_R_R_R_I INS_add EA_8BYTE (REG 9) (REG 9) (REG 5) 3 INS_OPTS_LSL,
        Ins_R INS_br EA_8BYTE (REG 9),
        DefineLabel (Some 1),
        sample_case 0, Ins_J INS_b (Some 0), DefineLabel (Some 2),
        sample_case 1, Ins_J INS_b (Some 0), DefineLabel (Some 3),
        sample_case 2, Ins_J INS_b (Some 0), DefineLabel (Some 4),
        sample_case 3, DefineLabel (Some 0)],
     nextLabel = 5, produced = []\<rparr>)"
proof -
  let ?node = "sample_node NI_AdvSimd_Extract TYP_INT (REG 0) False"
  have a: "isImmOp sample_ext (gtHWIntrinsicId ?node) (inReg 5)"
    and b: "\<not> isContainedIntOrIImmed (inReg 5)"
    and c: "regNum (inReg 5) \<noteq> REG_NA"
    and d: "lookupImmUpperBound sample_ext (gtHWIntrinsicId ?node) (gtSIMDSize ?node)
              (gtSIMDBaseType ?node) = 4"
    and e: "(4::cint) \<noteq> 2"
    and g: "\<not> GeneratesMultipleIns sample_ext (gtHWIntrinsicId ?node)"
    by (simp_all add: sample_defs sample_node_def inReg_def isContainedIntOrIImmed_def)
  have u: "unat (4::cint) = 4" by simp
  show ?thesis
    unfolding sample_body_def[abs_def] forEachImmCase_jumpTable[OF a b c d e g] u jumpTableCases_4
    by (simp add: empty_state_def sample_node_def inReg_def)
qed

text \<open>C1, as amended. In the jump-table mode (a register-held operand whose upper bound is not
  2) the construct begins with \<^verbatim>\<open>adr\<close>, \<^verbatim>\<open>add ..., lsl #3\<close>, \<^verbatim>\<open>br\<close> and the definition of
  the begin label. Run from any register contents, with the scratch register distinct from
  the operand's register, this sequence branches to the address of the begin label plus the
  runtime value shifted left by 3, that is plus 8 times the value: twice the instruction
  width, since every case but the last occupies two instruction slots (its instruction and
  \<^verbatim>\<open>b endLabel\<close>). Accordingly, for every value \<open>k\<close> below the upper bound, the instruction of
  case \<open>k\<close> is the entry \<open>3 * k\<close> after the begin label and lies \<open>8 * k\<close> bytes after it.\<close>

theorem jump_table_dispatch:
  fixes f :: "cint \<Rightarrow> emitted" and node :: GenTreeHWIntrinsic and s :: cg_state
    and ext :: externals and immOp :: GenTree
  defines "breg \<equiv> GetSingleTempReg node"
  defines "S \<equiv> drop (length (stream s))
                   (stream (snd (forEachImmCase ext (Some immOp) node (\<lambda>k. emit (f k)) s)))"
  assumes imm: "isImmOp ext (gtHWIntrinsicId node) immOp"
    and nc: "\<not> isContainedIntOrIImmed immOp"
    and reg: "regNum immOp \<noteq> REG_NA"
    and ub: "lookupImmUpperBound ext (gtHWIntrinsicId node) (gtSIMDSize node) (gtSIMDBaseType node) = ub"
    and ub2: "ub \<noteq> 2"
    and single: "\<not> GeneratesMultipleIns ext (gtHWIntrinsicId node)"
    and tmp: "GetSingleTempReg node \<noteq> regNum immOp"
    and ins: "\<And>k. insBytes (f k) = 4"
  shows "take 4 S =
           [Ins_R_L INS_adr EA_8BYTE (Some (nextLabel s + 1)) breg,
            Ins_R_R_R_I INS_add EA_8BYTE breg breg (regNum immOp) 3 INS_OPTS_LSL,
            Ins_R INS_br EA_8BYTE breg,
            DefineLabel (Some (nextLabel s + 1))]
       \<and> dispatchTarget addr S regs
            = Some (addr (Some (nextLabel s + 1)) + push_bit 3 (regs (regNum immOp)))
       \<and> push_bit 3 (regs (regNum immOp)) = 8 * regs (regNum immOp)
       \<and> (\<forall>k < unat ub. drop 4 S ! (3 * k) = f (of_nat k)
                        \<and> codeBytes (take (3 * k) (drop 4 S)) = 8 * k)"
proof -
  let ?pre = "[Ins_R_L INS_adr EA_8BYTE (Some (nextLabel s + 1)) breg,
            Ins_R_R_R_I INS_add EA_8BYTE breg breg (regNum immOp) 3 INS_OPTS_LSL,
            Ins_R INS_br EA_8BYTE breg,
            DefineLabel (Some (nextLabel s + 1))]"
  let ?cases = "jumpTableCases (Some (nextLabel s)) f (unat ub) 0 (nextLabel s + 2)"
  have S: "S = ?pre @ ?cases"
    unfolding S_def breg_def forEachImmCase_jumpTable[OF imm nc reg ub ub2 single]
    by simp
  have 1: "take 4 S = ?pre" unfolding S by simp
  have 2: "dispatchTarget addr S regs
            = Some (addr (Some (nextLabel s + 1)) + push_bit 3 (regs (regNum immOp)))"
    unfolding S using tmp by (simp add: breg_def)
  have 3: "push_bit 3 (regs (regNum immOp)) = 8 * regs (regNum immOp)"
    by (simp add: push_bit_eq_mult)
  have d: "drop 4 S = ?cases" unfolding S by simp
  have 4: "\<forall>k < unat ub. drop 4 S ! (3 * k) = f (of_nat k)
                        \<and> codeBytes (take (3 * k) (drop 4 S)) = 8 * k"
    unfolding d using jumpTableCases_nth[of _ "unat ub" "Some (nextLabel s)" f 0 "nextLabel s + 2"]
      jumpTableCases_bytes[of _ "unat ub" f "Some (nextLabel s)" 0 "nextLabel s + 2", OF _ ins]
    by simp
  show ?thesis using 1 2 3 4 by blast
qed

theorem jump_table_dispatch_witness:
  "isImmOp sample_ext NI_AdvSimd_Extract (inReg 5)
   \<and> \<not> isContainedIntOrIImmed (inReg 5)
   \<and> regNum (inReg 5) \<noteq> REG_NA
   \<and> lookupImmUpperBound sample_ext NI_AdvSimd_Extract 16 TYP_INT = 4
   \<and> (4::cint) \<noteq> 2
   \<and> \<not> GeneratesMultipleIns sample_ext NI_AdvSimd_Extract
   \<and> GetSingleTempReg (sample_node NI_AdvSimd_Extract TYP_INT (REG 0) False) \<noteq> regNum (inReg 5)
   \<and> insBytes (sample_case 2) = 4
   \<and> dispatchTarget sample_addr
        (stream (snd (forEachImmCase sample_ext (Some (inReg 5))
                        (sample_node NI_AdvSimd_Extract TYP_INT (REG 0) False)
                        sample_body empty_state)))
        (sample_regs 2)
      = Some (sample_addr (Some 1) + 16)
   \<and> drop 4 (stream (snd (forEachImmCase sample_ext (Some (inReg 5))
                        (sample_node NI_AdvSimd_Extract TYP_INT (REG 0) False)
                        sample_body empty_state))) ! (3 * 2) = sample_case 2
   \<and> codeBytes (take (3 * 2) (drop 4 (stream (snd (forEachImmCase sample_ext (Some (inReg 5))
                        (sample_node NI_AdvSimd_Extract TYP_INT (REG 0) False)
                        sample_body empty_state))))) = 16"
proof -
  let ?node = "sample_node NI_AdvSimd_Extract TYP_INT (REG 0) False"
  have a: "isImmOp sample_ext (gtHWIntrinsicId ?node) (inReg 5)"
    and b: "\<not> isContainedIntOrIImmed (inReg 5)"
    and c: "regNum (inReg 5) \<noteq> REG_NA"
    and d: "lookupImmUpperBound sample_ext (gtHWIntrinsicId ?node) (gtSIMDSize ?node)
              (gtSIMDBaseType ?node) = 4"
    and e: "(4::cint) \<noteq> 2"
    and g: "\<not> GeneratesMultipleIns sample_ext (gtHWIntrinsicId ?node)"
    and t: "GetSingleTempReg ?node \<noteq> regNum (inReg 5)"
    and i: "\<And>k. insBytes (sample_case k) = 4"
    by (simp_all add: sample_defs sample_node_def inReg_def isContainedIntOrIImmed_def
          sample_case_def)
  have k: "(2::nat) < unat (4::cint)" by simp
  note th = jump_table_dispatch[of sample_ext ?node "inReg 5" 4 sample_case empty_state
              sample_addr "sample_regs 2", OF a b c d e g t i, folded sample_body_def[abs_def]]
  have th4: "drop 4 (stream (snd (forEachImmCase sample_ext (Some (inReg 5)) ?node
                        sample_body empty_state))) ! (3 * 2) = sample_case (of_nat 2)
       \<and> codeBytes (take (3 * 2) (drop 4 (stream (snd (forEachImmCase sample_ext (Some (inReg 5))
                        ?node sample_body empty_state))))) = 8 * 2"
    using th[THEN conjunct2, THEN conjunct2, THEN conjunct2, rule_format, OF k]
    by (simp add: empty_state_def)
  have th2: "dispatchTarget sample_addr
        (stream (snd (forEachImmCase sample_ext (Some (inReg 5)) ?node sample_body empty_state)))
        (sample_regs 2)
      = Some (sample_addr (Some 1) + 16)"
    using th by (simp add: empty_state_def sample_regs_def inReg_def)
  show ?thesis
    using a b c d e g t i th2 th4 by (simp add: sample_node_def)
qed

text \<open>C1 as stated fails: the shift is 3, not \<open>log2 4 = 2\<close>. With the value 1 in the operand's
  register the sample dispatch branches 8 bytes past the begin label, not 4, and the
  instruction of case 1 lies 8 bytes past it, case 0 taking two slots.\<close>

theorem jump_table_offset_counterexample:
  "dispatchTarget sample_addr
        (stream (snd (forEachImmCase sample_ext (Some (inReg 5))
                        (sample_node NI_AdvSimd_Extract TYP_INT (REG 0) False)
                        sample_body empty_state)))
        (sample_regs 1)
      = Some (sample_addr (Some 1) + 8)
   \<and> sample_addr (Some 1) + 8 \<noteq> sample_addr (Some 1) + push_bit 2 (sample_regs 1 (REG 5))
   \<and> stream (snd (forEachImmCase sample_ext (Some (inReg 5))
                        (sample_node NI_AdvSimd_Extract TYP_INT (REG 0) False)
                        sample_body empty_state)) ! 7 = sample_case 1
   \<and> codeBytes (take 3 (drop 4 (stream (snd (forEachImmCase sample_ext (Some (inReg 5))
                        (sample_node NI_AdvSimd_Extract TYP_INT (REG 0) False)
                        sample_body empty_state))))) \<noteq> 1 * 4"
  unfolding sample_jump_table_stream
  by (simp add: sample_regs_def sample_addr_def codeBytes_def sample_case_def)

subsection \<open>Evaluating genHWIntrinsic\<close>

lemmas sample_eval =
  sample_defs sample_node_def sample_intrin_def inReg_def intConst_def
  empty_state_def emitSizeAndOpt_def genProduceReg_def isContainedIntOrIImmed_def

lemmas gen_defs = genHWIntrinsic_def operandRegs_def genConsumeHWIntrinsicOperands_def Let_def

subsection \<open>C2: the move before a table-driven read-modify-write operation\<close>

text \<open>C2. For a table-driven read-modify-write node with a valid opcode and a target register
  that is none of the pure sources: with two operands the node emits the operation
  \<open>ins target, op2\<close>, and with three operands \<open>ins target, op2, op3\<close>, with the target as the
  destructive first operand; the operation is preceded by no move when the target register is
  the register of operand 1, and by exactly one \<^verbatim>\<open>mov target, op1\<close> when it is not. Nothing
  else is emitted.\<close>

theorem table_driven_rmw_move:
  assumes td: "IsTableDriven intrin" and rmw: "isRMWHWIntrinsic node"
    and ins: "lookupIns ext (intrin_id intrin) (baseType intrin) = ins" and valid: "ins \<noteq> INS_invalid"
    and sz: "emitSizeAndOpt ext node intrin = (emitSize, opt)"
    and o1: "op1 intrin = Some a" and o2: "op2 intrin = Some b"
  shows "(numOperands intrin = 2 \<and> gtRegNum node \<noteq> regNum b \<longrightarrow>
            genHWIntrinsic ext node intrin s =
              (Inr (), genProduceReg node
                 (s\<lparr>stream := stream s @
                      (if gtRegNum node = regNum a then []
                       else [Ins_R_R INS_mov emitSize (gtRegNum node) (regNum a) INS_OPTS_NONE]) @
                      [Ins_R_R ins emitSize (gtRegNum node) (regNum b) opt]\<rparr>)))
       \<and> (numOperands intrin = 3 \<and> op3 intrin = Some c
            \<and> gtRegNum node \<noteq> regNum b \<and> gtRegNum node \<noteq> regNum c \<longrightarrow>
            genHWIntrinsic ext node intrin s =
              (Inr (), genProduceReg node
                 (s\<lparr>stream := stream s @
                      (if gtRegNum node = regNum a then []
                       else [Ins_R_R INS_mov emitSize (gtRegNum node) (regNum a) INS_OPTS_NONE]) @
                      [Ins_R_R_R ins emitSize (gtRegNum node) (regNum b) (regNum c) opt]\<rparr>)))"
  using assms
  by (simp add: gen_defs genTableDriven_def emit_def)

theorem table_driven_rmw_move_witness:
  "genHWIntrinsic sample_ext (sample_node (NI_Other 0) TYP_INT (REG 0) True)
     (sample_intrin (NI_Other 0) HW_Category_SimpleSIMD TYP_INT 2
        (Some (inReg 1)) (Some (inReg 2)) None True) empty_state
     = (Inr (), \<lparr>stream = [Ins_R_R INS_mov EA_16BYTE (REG 0) (REG 1) INS_OPTS_NONE,
                            Ins_R_R (INS_other 1) EA_16BYTE (REG 0) (REG 2) INS_OPTS_4S],
                  nextLabel = 0, produced = [REG 0]\<rparr>)
   \<and> genHWIntrinsic sample_ext (sample_node (NI_Other 0) TYP_INT (REG 1) True)
     (sample_intrin (NI_Other 0) HW_Category_SimpleSIMD TYP_INT 2
        (Some (inReg 1)) (Some (inReg 2)) None True) empty_state
     = (Inr (), \<lparr>stream = [Ins_R_R (INS_other 1) EA_16BYTE (REG 1) (REG 2) INS_OPTS_4S],
                  nextLabel = 0, produced = [REG 1]\<rparr>)
   \<and> genHWIntrinsic sample_ext (sample_node (NI_Other 0) TYP_INT (REG 0) True)
     (sample_intrin (NI_Other 0) HW_Category_SimpleSIMD TYP_INT 3
        (Some (inReg 1)) (Some (inReg 2)) (Some (inReg 3)) True) empty_state
     = (Inr (), \<lparr>stream = [Ins_R_R INS_mov EA_16BYTE (REG 0) (REG 1) INS_OPTS_NONE,
                            Ins_R_R_R (INS_other 1) EA_16BYTE (REG 0) (REG 2) (REG 3) INS_OPTS_4S],
                  nextLabel = 0, produced = [REG 0]\<rparr>)"
  using table_driven_rmw_move
          [where ext = sample_ext and node = "sample_node (NI_Other 0) TYP_INT (REG 0) True"
             and intrin = "sample_intrin (NI_Other 0) HW_Category_SimpleSIMD TYP_INT 2
                             (Some (inReg 1)) (Some (inReg 2)) None True"
             and ins = "INS_other 1" and emitSize = EA_16BYTE and opt = INS_OPTS_4S
             and a = "inReg 1" and b = "inReg 2" and s = empty_state]
        table_driven_rmw_move
          [where ext = sample_ext and node = "sample_node (NI_Other 0) TYP_INT (REG 1) True"
             and intrin = "sample_intrin (NI_Other 0) HW_Category_SimpleSIMD TYP_INT 2
                             (Some (inReg 1)) (Some (inReg 2)) None True"
             and ins = "INS_other 1" and emitSize = EA_16BYTE and opt = INS_OPTS_4S
             and a = "inReg 1" and b = "inReg 2" and s = empty_state]
        table_driven_rmw_move
          [where ext = sample_ext and node = "sample_node (NI_Other 0) TYP_INT (REG 0) True"
             and intrin = "sample_intrin (NI_Other 0) HW_Category_SimpleSIMD TYP_INT 3
                             (Some (inReg 1)) (Some (inReg 2)) (Some (inReg 3)) True"
             and ins = "INS_other 1" and emitSize = EA_16BYTE and opt = INS_OPTS_4S
             and a = "inReg 1" and b = "inReg 2" and c = "inReg 3" and s = empty_state]
  by (simp add: sample_eval)

subsection \<open>C9: the target must not alias a pure source\<close>

text \<open>C9. For a table-driven read-modify-write node: if the target register is the register of
  operand 2 (two or three operands) or of operand 3 (three operands), code generation halts
  with a failed assertion and the state unchanged, so nothing has been emitted for the node
  (the assertion is the aliasing one, unless the opcode lookup already failed its own); if
  the target aliases no pure source and the opcode is valid, no assertion fires and the
  operation is emitted.\<close>

theorem rmw_alias_assertion:
  assumes td: "IsTableDriven intrin" and rmw: "isRMWHWIntrinsic node"
    and ins: "lookupIns ext (intrin_id intrin) (baseType intrin) = ins"
    and sz: "emitSizeAndOpt ext node intrin = (emitSize, opt)"
    and o1: "op1 intrin = Some a" and o2: "op2 intrin = Some b"
  shows "(numOperands intrin = 2 \<and> gtRegNum node = regNum b \<longrightarrow>
            genHWIntrinsic ext node intrin s =
              (Inl (AssertionFailed (if ins = INS_invalid then ''ins != INS_invalid''
                                     else ''targetReg != op2Reg'')), s))
       \<and> (numOperands intrin = 3 \<and> op3 intrin = Some c
            \<and> (gtRegNum node = regNum b \<or> gtRegNum node = regNum c) \<longrightarrow>
            genHWIntrinsic ext node intrin s =
              (Inl (AssertionFailed (if ins = INS_invalid then ''ins != INS_invalid''
                                     else if gtRegNum node = regNum b then ''targetReg != op2Reg''
                                     else ''targetReg != op3Reg'')), s))
       \<and> (numOperands intrin = 2 \<and> gtRegNum node \<noteq> regNum b \<and> ins \<noteq> INS_invalid \<longrightarrow>
            fst (genHWIntrinsic ext node intrin s) = Inr ()
            \<and> length (stream s) < length (stream (snd (genHWIntrinsic ext node intrin s)))
            \<and> last (stream (snd (genHWIntrinsic ext node intrin s)))
                = Ins_R_R ins emitSize (gtRegNum node) (regNum b) opt)
       \<and> (numOperands intrin = 3 \<and> op3 intrin = Some c
            \<and> gtRegNum node \<noteq> regNum b \<and> gtRegNum node \<noteq> regNum c \<and> ins \<noteq> INS_invalid \<longrightarrow>
            fst (genHWIntrinsic ext node intrin s) = Inr ()
            \<and> length (stream s) < length (stream (snd (genHWIntrinsic ext node intrin s)))
            \<and> last (stream (snd (genHWIntrinsic ext node intrin s)))
                = Ins_R_R_R ins emitSize (gtRegNum node) (regNum b) (regNum c) opt)"
  using assms
  by (simp add: gen_defs genTableDriven_def emit_def genProduceReg_def)

theorem rmw_alias_assertion_witness:
  "genHWIntrinsic sample_ext (sample_node (NI_Other 0) TYP_INT (REG 2) True)
     (sample_intrin (NI_Other 0) HW_Category_SimpleSIMD TYP_INT 2
        (Some (inReg 1)) (Some (inReg 2)) None True) empty_state
     = (Inl (AssertionFailed ''targetReg != op2Reg''), empty_state)
   \<and> genHWIntrinsic sample_ext (sample_node (NI_Other 0) TYP_INT (REG 3) True)
     (sample_intrin (NI_Other 0) HW_Category_SimpleSIMD TYP_INT 3
        (Some (inReg 1)) (Some (inReg 2)) (Some (inReg 3)) True) empty_state
     = (Inl (AssertionFailed ''targetReg != op3Reg''), empty_state)
   \<and> fst (genHWIntrinsic sample_ext (sample_node (NI_Other 0) TYP_INT (REG 0) True)
     (sample_intrin (NI_Other 0) HW_Category_SimpleSIMD TYP_INT 2
        (Some (inReg 1)) (Some (inReg 2)) None True) empty_state) = Inr ()
   \<and> last (stream (snd (genHWIntrinsic sample_ext (sample_node (NI_Other 0) TYP_INT (REG 0) True)
     (sample_intrin (NI_Other 0) HW_Category_SimpleSIMD TYP_INT 3
        (Some (inReg 1)) (Some (inReg 2)) (Some (inReg 3)) True) empty_state)))
     = Ins_R_R_R (INS_other 1) EA_16BYTE (REG 0) (REG 2) (REG 3) INS_OPTS_4S"
  using rmw_alias_assertion
          [where ext = sample_ext and node = "sample_node (NI_Other 0) TYP_INT (REG 2) True"
             and intrin = "sample_intrin (NI_Other 0) HW_Category_SimpleSIMD TYP_INT 2
                             (Some (inReg 1)) (Some (inReg 2)) None True"
             and ins = "INS_other 1" and emitSize = EA_16BYTE and opt = INS_OPTS_4S
             and a = "inReg 1" and b = "inReg 2" and s = empty_state]
        rmw_alias_assertion
          [where ext = sample_ext and node = "sample_node (NI_Other 0) TYP_INT (REG 3) True"
             and intrin = "sample_intrin (NI_Other 0) HW_Category_SimpleSIMD TYP_INT 3
                             (Some (inReg 1)) (Some (inReg 2)) (Some (inReg 3)) True"
             and ins = "INS_other 1" and emitSize = EA_16BYTE and opt = INS_OPTS_4S
             and a = "inReg 1" and b = "inReg 2" and c = "inReg 3" and s = empty_state]
        rmw_alias_assertion
          [where ext = sample_ext and node = "sample_node (NI_Other 0) TYP_INT (REG 0) True"
             and intrin = "sample_intrin (NI_Other 0) HW_Category_SimpleSIMD TYP_INT 2
                             (Some (inReg 1)) (Some (inReg 2)) None True"
             and ins = "INS_other 1" and emitSize = EA_16BYTE and opt = INS_OPTS_4S
             and a = "inReg 1" and b = "inReg 2" and s = empty_state]
        rmw_alias_assertion
          [where ext = sample_ext and node = "sample_node (NI_Other 0) TYP_INT (REG 0) True"
             and intrin = "sample_intrin (NI_Other 0) HW_Category_SimpleSIMD TYP_INT 3
                             (Some (inReg 1)) (Some (inReg 2)) (Some (inReg 3)) True"
             and ins = "INS_other 1" and emitSize = EA_16BYTE and opt = INS_OPTS_4S
             and a = "inReg 1" and b = "inReg 2" and c = "inReg 3" and s = empty_state]
  by (simp add: sample_eval)

subsection \<open>C6: the less-than comparisons\<close>

text \<open>C6. For each of the twelve less-than and less-than-or-equal operations (plain and
  absolute, vector and scalar), taken on the branch that is not table-driven with two operands
  and a valid opcode, the node emits exactly one three-register instruction whose destination
  is the target register and whose sources are the register of operand 2 followed by the
  register of operand 1.\<close>

theorem less_than_operands_reversed:
  assumes ntd: "\<not> IsTableDriven intrin"
    and fam: "intrin_id intrin \<in>
       {NI_AdvSimd_CompareLessThan, NI_AdvSimd_CompareLessThanOrEqual,
        NI_AdvSimd_Arm64_CompareLessThan, NI_AdvSimd_Arm64_CompareLessThanScalar,
        NI_AdvSimd_Arm64_CompareLessThanOrEqual, NI_AdvSimd_Arm64_CompareLessThanOrEqualScalar,
        NI_AdvSimd_AbsoluteCompareLessThan, NI_AdvSimd_AbsoluteCompareLessThanOrEqual,
        NI_AdvSimd_Arm64_AbsoluteCompareLessThan, NI_AdvSimd_Arm64_AbsoluteCompareLessThanScalar,
        NI_AdvSimd_Arm64_AbsoluteCompareLessThanOrEqual,
        NI_AdvSimd_Arm64_AbsoluteCompareLessThanOrEqualScalar}"
    and n: "numOperands intrin = 2"
    and o1: "op1 intrin = Some a" and o2: "op2 intrin = Some b"
    and ins: "lookupIns ext (intrin_id intrin) (baseType intrin) = ins" and valid: "ins \<noteq> INS_invalid"
    and sz: "emitSizeAndOpt ext node intrin = (emitSize, opt)"
  shows "genHWIntrinsic ext node intrin s =
           (Inr (), genProduceReg node
              (s\<lparr>stream := stream s @
                 [Ins_R_R_R ins emitSize (gtRegNum node) (regNum b) (regNum a) opt]\<rparr>))"
proof -
  have sel: "selectIns ext intrin = Inr ins"
    using fam ins by (auto simp: selectIns_def)
  show ?thesis
    using fam ntd n o1 o2 valid sz
    by (auto simp: gen_defs genSpecial_def sel emit_def)
qed

theorem less_than_operands_reversed_witness:
  "genHWIntrinsic sample_ext (sample_node NI_AdvSimd_CompareLessThan TYP_INT (REG 0) False)
     (sample_intrin NI_AdvSimd_CompareLessThan HW_Category_SimpleSIMD TYP_INT 2
        (Some (inReg 1)) (Some (inReg 2)) None False) empty_state
     = (Inr (), \<lparr>stream = [Ins_R_R_R (INS_other 1) EA_16BYTE (REG 0) (REG 2) (REG 1) INS_OPTS_4S],
                  nextLabel = 0, produced = [REG 0]\<rparr>)"
  using less_than_operands_reversed
          [where ext = sample_ext
             and node = "sample_node NI_AdvSimd_CompareLessThan TYP_INT (REG 0) False"
             and intrin = "sample_intrin NI_AdvSimd_CompareLessThan HW_Category_SimpleSIMD TYP_INT 2
                             (Some (inReg 1)) (Some (inReg 2)) None False"
             and ins = "INS_other 1" and emitSize = EA_16BYTE and opt = INS_OPTS_4S
             and a = "inReg 1" and b = "inReg 2" and s = empty_state]
  by (simp add: sample_eval)

subsection \<open>C7: bitwise select\<close>

text \<open>C7. For \<^verbatim>\<open>NI_AdvSimd_BitwiseSelect\<close> (not marked read-modify-write, three operands, valid
  opcode): if the target is the register of operand 1 the node emits one \<^verbatim>\<open>bsl\<close> with
  sources (op2, op3); else if it is the register of operand 2, one \<^verbatim>\<open>bif\<close> with sources
  (op3, op1); else if it is the register of operand 3, one \<^verbatim>\<open>bit\<close> with sources (op2, op1);
  otherwise \<^verbatim>\<open>mov target, op1\<close> followed by \<^verbatim>\<open>bsl\<close> with sources (op2, op3). The counts are
  1, 1, 1 and 2.\<close>

theorem bitwise_select_forms:
  assumes ntd: "\<not> IsTableDriven intrin"
    and id: "intrin_id intrin = NI_AdvSimd_BitwiseSelect"
    and n: "numOperands intrin = 3"
    and o1: "op1 intrin = Some a" and o2: "op2 intrin = Some b" and o3: "op3 intrin = Some c"
    and nrmw: "\<not> isRMWHWIntrinsic node"
    and valid: "lookupIns ext (intrin_id intrin) (baseType intrin) \<noteq> INS_invalid"
    and sz: "emitSizeAndOpt ext node intrin = (emitSize, opt)"
  shows "genHWIntrinsic ext node intrin s =
           (Inr (), genProduceReg node
              (s\<lparr>stream := stream s @
                 (if gtRegNum node = regNum a then
                    [Ins_R_R_R INS_bsl emitSize (gtRegNum node) (regNum b) (regNum c) opt]
                  else if gtRegNum node = regNum b then
                    [Ins_R_R_R INS_bif emitSize (gtRegNum node) (regNum c) (regNum a) opt]
                  else if gtRegNum node = regNum c then
                    [Ins_R_R_R INS_bit emitSize (gtRegNum node) (regNum b) (regNum a) opt]
                  else
                    [Ins_R_R INS_mov emitSize (gtRegNum node) (regNum a) INS_OPTS_NONE,
                     Ins_R_R_R INS_bsl emitSize (gtRegNum node) (regNum b) (regNum c) opt])\<rparr>))
       \<and> length (stream (snd (genHWIntrinsic ext node intrin s))) - length (stream s)
           = (if gtRegNum node = regNum a \<or> gtRegNum node = regNum b \<or> gtRegNum node = regNum c
              then 1 else 2)"
proof -
  have sel: "selectIns ext intrin = Inr (lookupIns ext (intrin_id intrin) (baseType intrin))"
    using id by (simp add: selectIns_def)
  show ?thesis
    using id ntd n o1 o2 o3 valid sz nrmw
    by (simp add: gen_defs genSpecial_def sel emit_def genBitwiseSelect_def genProduceReg_def)
qed

theorem bitwise_select_forms_witness:
  "genHWIntrinsic sample_ext (sample_node NI_AdvSimd_BitwiseSelect TYP_INT (REG 0) False)
     (sample_intrin NI_AdvSimd_BitwiseSelect HW_Category_SimpleSIMD TYP_INT 3
        (Some (inReg 0)) (Some (inReg 1)) (Some (inReg 2)) False) empty_state
     = (Inr (), \<lparr>stream = [Ins_R_R_R INS_bsl EA_16BYTE (REG 0) (REG 1) (REG 2) INS_OPTS_4S],
                  nextLabel = 0, produced = [REG 0]\<rparr>)
   \<and> genHWIntrinsic sample_ext (sample_node NI_AdvSimd_BitwiseSelect TYP_INT (REG 0) False)
     (sample_intrin NI_AdvSimd_BitwiseSelect HW_Category_SimpleSIMD TYP_INT 3
        (Some (inReg 3)) (Some (inReg 1)) (Some (inReg 2)) False) empty_state
     = (Inr (), \<lparr>stream = [Ins_R_R INS_mov EA_16BYTE (REG 0) (REG 3) INS_OPTS_NONE,
                            Ins_R_R_R INS_bsl EA_16BYTE (REG 0) (REG 1) (REG 2) INS_OPTS_4S],
                  nextLabel = 0, produced = [REG 0]\<rparr>)
   \<and> genHWIntrinsic sample_ext (sample_node NI_AdvSimd_BitwiseSelect TYP_INT (REG 1) False)
     (sample_intrin NI_AdvSimd_BitwiseSelect HW_Category_SimpleSIMD TYP_INT 3
        (Some (inReg 3)) (Some (inReg 1)) (Some (inReg 2)) False) empty_state
     = (Inr (), \<lparr>stream = [Ins_R_R_R INS_bif EA_16BYTE (REG 1) (REG 2) (REG 3) INS_OPTS_4S],
                  nextLabel = 0, produced = [REG 1]\<rparr>)
   \<and> genHWIntrinsic sample_ext (sample_node NI_AdvSimd_BitwiseSelect TYP_INT (REG 2) False)
     (sample_intrin NI_AdvSimd_BitwiseSelect HW_Category_SimpleSIMD TYP_INT 3
        (Some (inReg 3)) (Some (inReg 1)) (Some (inReg 2)) False) empty_state
     = (Inr (), \<lparr>stream = [Ins_R_R_R INS_bit EA_16BYTE (REG 2) (REG 1) (REG 3) INS_OPTS_4S],
                  nextLabel = 0, produced = [REG 2]\<rparr>)"
  using bitwise_select_forms
          [where ext = sample_ext
             and node = "sample_node NI_AdvSimd_BitwiseSelect TYP_INT (REG 0) False"
             and intrin = "sample_intrin NI_AdvSimd_BitwiseSelect HW_Category_SimpleSIMD TYP_INT 3
                             (Some (inReg 0)) (Some (inReg 1)) (Some (inReg 2)) False"
             and emitSize = EA_16BYTE and opt = INS_OPTS_4S
             and a = "inReg 0" and b = "inReg 1" and c = "inReg 2" and s = empty_state]
        bitwise_select_forms
          [where ext = sample_ext
             and node = "sample_node NI_AdvSimd_BitwiseSelect TYP_INT (REG 0) False"
             and intrin = "sample_intrin NI_AdvSimd_BitwiseSelect HW_Category_SimpleSIMD TYP_INT 3
                             (Some (inReg 3)) (Some (inReg 1)) (Some (inReg 2)) False"
             and emitSize = EA_16BYTE and opt = INS_OPTS_4S
             and a = "inReg 3" and b = "inReg 1" and c = "inReg 2" and s = empty_state]
        bitwise_select_forms
          [where ext = sample_ext
             and node = "sample_node NI_AdvSimd_BitwiseSelect TYP_INT (REG 1) False"
             and intrin = "sample_intrin NI_AdvSimd_BitwiseSelect HW_Category_SimpleSIMD TYP_INT 3
                             (Some (inReg 3)) (Some (inReg 1)) (Some (inReg 2)) False"
             and emitSize = EA_16BYTE and opt = INS_OPTS_4S
             and a = "inReg 3" and b = "inReg 1" and c = "inReg 2" and s = empty_state]
        bitwise_select_forms
          [where ext = sample_ext
             and node = "sample_node NI_AdvSimd_BitwiseSelect TYP_INT (REG 2) False"
             and intrin = "sample_intrin NI_AdvSimd_BitwiseSelect HW_Category_SimpleSIMD TYP_INT 3
                             (Some (inReg 3)) (Some (inReg 1)) (Some (inReg 2)) False"
             and emitSize = EA_16BYTE and opt = INS_OPTS_4S
             and a = "inReg 3" and b = "inReg 1" and c = "inReg 2" and s = empty_state]
  by (simp add: sample_eval)

subsection \<open>C10: inserting a floating-point constant\<close>

text \<open>C10. For \<^verbatim>\<open>NI_AdvSimd_Insert\<close> (read-modify-write, target distinct from the register of
  operand 3, valid opcode) whose value operand is a contained floating-point constant: the
  lane-index operand is asserted to be a contained integer constant, and that constant to be
  0; when it is, the node emits \<^verbatim>\<open>fmov target, #value\<close>, preceded by \<^verbatim>\<open>mov target, op1\<close>
  exactly when the target register differs from the register of operand 1.\<close>

theorem insert_float_immediate:
  assumes ntd: "\<not> IsTableDriven intrin"
    and id: "intrin_id intrin = NI_AdvSimd_Insert"
    and n: "numOperands intrin = 3"
    and o1: "op1 intrin = Some a" and o2: "op2 intrin = Some b" and o3: "op3 intrin = Some c"
    and rmw: "isRMWHWIntrinsic node"
    and na: "gtRegNum node \<noteq> regNum c"
    and flt: "contained c = ContainedDbl d"
    and valid: "lookupIns ext (intrin_id intrin) (baseType intrin) \<noteq> INS_invalid"
    and sz: "emitSizeAndOpt ext node intrin = (emitSize, opt)"
  shows "(contained b = ContainedInt 0 \<longrightarrow>
            genHWIntrinsic ext node intrin s =
              (Inr (), genProduceReg node
                 (s\<lparr>stream := stream s @
                      (if gtRegNum node = regNum a then []
                       else [Ins_R_R INS_mov emitSize (gtRegNum node) (regNum a) INS_OPTS_NONE]) @
                      [Ins_R_F INS_fmov (emitTypeSize ext (baseType intrin)) (gtRegNum node) d
                         INS_OPTS_NONE]\<rparr>)))
       \<and> (\<not> isContainedIntOrIImmed b \<longrightarrow>
            fst (genHWIntrinsic ext node intrin s)
              = Inl (AssertionFailed ''intrin.op2->isContainedIntOrIImmed()''))
       \<and> (contained b = ContainedInt v \<and> v \<noteq> 0 \<longrightarrow>
            fst (genHWIntrinsic ext node intrin s)
              = Inl (AssertionFailed ''intrin.op2->AsIntCon()->gtIconVal == 0''))"
proof -
  have sel: "selectIns ext intrin = Inr (lookupIns ext (intrin_id intrin) (baseType intrin))"
    using id by (simp add: selectIns_def)
  show ?thesis
    using id ntd n o1 o2 o3 valid sz rmw na flt
    by (simp add: gen_defs genSpecial_def sel emit_def genInsert_def isContainedIntOrIImmed_def
          split: containment.splits)
qed

theorem insert_float_immediate_witness:
  "genHWIntrinsic sample_ext (sample_node NI_AdvSimd_Insert TYP_FLOAT (REG 0) True)
     (sample_intrin NI_AdvSimd_Insert HW_Category_IMM TYP_FLOAT 3
        (Some (inReg 1)) (Some (intConst 0)) (Some (dblConst 4607182418800017408)) False)
     empty_state
     = (Inr (), \<lparr>stream = [Ins_R_R INS_mov EA_16BYTE (REG 0) (REG 1) INS_OPTS_NONE,
                            Ins_R_F INS_fmov EA_4BYTE (REG 0) 4607182418800017408 INS_OPTS_NONE],
                  nextLabel = 0, produced = [REG 0]\<rparr>)
   \<and> fst (genHWIntrinsic sample_ext (sample_node NI_AdvSimd_Insert TYP_FLOAT (REG 0) True)
     (sample_intrin NI_AdvSimd_Insert HW_Category_IMM TYP_FLOAT 3
        (Some (inReg 1)) (Some (inReg 5)) (Some (dblConst 4607182418800017408)) False)
     empty_state)
     = Inl (AssertionFailed ''intrin.op2->isContainedIntOrIImmed()'')
   \<and> fst (genHWIntrinsic sample_ext (sample_node NI_AdvSimd_Insert TYP_FLOAT (REG 0) True)
     (sample_intrin NI_AdvSimd_Insert HW_Category_IMM TYP_FLOAT 3
        (Some (inReg 1)) (Some (intConst 1)) (Some (dblConst 4607182418800017408)) False)
     empty_state)
     = Inl (AssertionFailed ''intrin.op2->AsIntCon()->gtIconVal == 0'')"
  using insert_float_immediate
          [where ext = sample_ext
             and node = "sample_node NI_AdvSimd_Insert TYP_FLOAT (REG 0) True"
             and intrin = "sample_intrin NI_AdvSimd_Insert HW_Category_IMM TYP_FLOAT 3
                (Some (inReg 1)) (Some (intConst 0)) (Some (dblConst 4607182418800017408)) False"
             and emitSize = EA_16BYTE and opt = INS_OPTS_4S and d = 4607182418800017408
             and a = "inReg 1" and b = "intConst 0" and c = "dblConst 4607182418800017408"
             and s = empty_state]
        insert_float_immediate
          [where ext = sample_ext
             and node = "sample_node NI_AdvSimd_Insert TYP_FLOAT (REG 0) True"
             and intrin = "sample_intrin NI_AdvSimd_Insert HW_Category_IMM TYP_FLOAT 3
                (Some (inReg 1)) (Some (inReg 5)) (Some (dblConst 4607182418800017408)) False"
             and emitSize = EA_16BYTE and opt = INS_OPTS_4S and d = 4607182418800017408
             and a = "inReg 1" and b = "inReg 5" and c = "dblConst 4607182418800017408"
             and s = empty_state]
        insert_float_immediate
          [where ext = sample_ext
             and node = "sample_node NI_AdvSimd_Insert TYP_FLOAT (REG 0) True"
             and intrin = "sample_intrin NI_AdvSimd_Insert HW_Category_IMM TYP_FLOAT 3
                (Some (inReg 1)) (Some (intConst 1)) (Some (dblConst 4607182418800017408)) False"
             and emitSize = EA_16BYTE and opt = INS_OPTS_4S and d = 4607182418800017408
             and a = "inReg 1" and b = "intConst 1" and c = "dblConst 4607182418800017408"
             and s = empty_state and v = 1]
  by (simp add: sample_eval dblConst_def)

subsection \<open>C8: the byte offset of an extracted vector slice\<close>

text \<open>The product of an element size and a lane index, computed in 32 bits and widened to the
  emitter's immediate, is the product of the two numbers as long as that stays below \<open>2^31\<close>.\<close>

lemma byte_index_value:
  fixes a k :: cint
  assumes "unat a * unat k < 2 ^ 31"
  shows "sint (scast (a * k) :: ssize_t) = int (unat a) * int (unat k)"
proof -
  have lt: "unat a * unat k < 2 ^ LENGTH(32)" using assms by simp
  have u: "unat (a * k) = unat a * unat k"
    using lt by (rule unat_mult_lem[THEN iffD1])
  have ui: "uint (a * k) = int (unat a * unat k)"
    using u by (metis uint_nat)
  have b: "uint (a * k) < 2 ^ 31" unfolding ui using assms by (metis of_nat_less_iff of_nat_numeral of_nat_power)
  have up: "is_up (scast :: cint \<Rightarrow> ssize_t)" by (simp add: is_up)
  have "sint (scast (a * k) :: ssize_t) = sint (a * k)" by (rule sint_up_scast[OF up])
  also have "\<dots> = signed_take_bit (LENGTH(32) - Suc 0) (uint (a * k))" by (rule sint_uint)
  also have "\<dots> = uint (a * k)"
  proof -
    have "- (2 ^ 31) \<le> uint (a * k)" by (rule order_trans[of _ 0]) simp_all
    from signed_take_bit_int_eq_self[OF this b] show ?thesis by simp
  qed
  also have "\<dots> = int (unat a) * int (unat k)" using ui by simp
  finally show ?thesis .
qed

text \<open>C8. For \<^verbatim>\<open>NI_AdvSimd_ExtractVector64\<close> and \<^verbatim>\<open>NI_AdvSimd_ExtractVector128\<close> the instruction
  emitted for the lane index \<open>laneIndex\<close> is \<open>ins target, op1, op2, #imm\<close> with the immediate
  \<open>genTypeSize(baseType) * laneIndex\<close>: for a constant lane index it is the only entry emitted;
  for a register-held lane index with upper bound 2 the two cases carry the immediates for 0
  and 1; and in the jump-table mode, for every lane index below the upper bound, the
  instruction of its case (entry \<open>4 + 3 * laneIndex\<close> of what the node emits) carries that
  immediate. The product is the numeric product of the element size and the lane index
  whenever that is below \<open>2^31\<close>.\<close>

theorem extract_vector_byte_offset:
  fixes ext :: externals and node :: GenTreeHWIntrinsic and intrin :: HWIntrinsic
    and s :: cg_state and a b c :: GenTree and ins :: instruction and emitSize :: emitAttr
  defines "caseIns \<equiv> \<lambda>laneIndex.
             Ins_R_R_R_I ins emitSize (gtRegNum node) (regNum a) (regNum b)
               (scast (genTypeSize ext (baseType intrin) * laneIndex))
               (if intrin_id intrin = NI_AdvSimd_ExtractVector64 then INS_OPTS_8B
                else INS_OPTS_16B)"
    and "ub \<equiv> lookupImmUpperBound ext (gtHWIntrinsicId node) (gtSIMDSize node)
                 (gtSIMDBaseType node)"
    and "S \<equiv> drop (length (stream s)) (stream (snd (genHWIntrinsic ext node intrin s)))"
  assumes ntd: "\<not> IsTableDriven intrin"
    and id: "intrin_id intrin \<in> {NI_AdvSimd_ExtractVector64, NI_AdvSimd_ExtractVector128}"
    and n: "numOperands intrin = 3"
    and o1: "op1 intrin = Some a" and o2: "op2 intrin = Some b" and o3: "op3 intrin = Some c"
    and ins: "lookupIns ext (intrin_id intrin) (baseType intrin) = ins"
    and valid: "ins \<noteq> INS_invalid"
    and sz: "emitSizeAndOpt ext node intrin = (emitSize, opt)"
    and imm: "isImmOp ext (gtHWIntrinsicId node) c"
  shows "(contained c = ContainedInt v \<longrightarrow>
            fst (genHWIntrinsic ext node intrin s) = Inr () \<and> S = [caseIns (ucast v)])
       \<and> (\<not> isContainedIntOrIImmed c \<and> regNum c \<noteq> REG_NA \<and> ub = 2 \<longrightarrow>
            fst (genHWIntrinsic ext node intrin s) = Inr ()
            \<and> S = [Ins_J_R INS_cbnz EA_4BYTE (Some (nextLabel s)) (regNum c),
                   DefineLabel (Some (nextLabel s + 2)),
                   caseIns 0,
                   Ins_J INS_b (Some (nextLabel s + 1)),
                   DefineLabel (Some (nextLabel s)),
                   caseIns 1,
                   DefineLabel (Some (nextLabel s + 1))])
       \<and> (\<not> isContainedIntOrIImmed c \<and> regNum c \<noteq> REG_NA \<and> ub \<noteq> 2
            \<and> \<not> GeneratesMultipleIns ext (gtHWIntrinsicId node) \<longrightarrow>
            fst (genHWIntrinsic ext node intrin s) = Inr ()
            \<and> (\<forall>laneIndex < unat ub. S ! (4 + 3 * laneIndex) = caseIns (of_nat laneIndex)))
       \<and> (unat (genTypeSize ext (baseType intrin)) * unat k < 2 ^ 31 \<longrightarrow>
            sint (scast (genTypeSize ext (baseType intrin) * k) :: ssize_t)
              = int (unat (genTypeSize ext (baseType intrin))) * int (unat k))"
proof -
  have sel: "selectIns ext intrin = Inr ins"
    using id ins by (auto simp: selectIns_def)
  have g: "genHWIntrinsic ext node intrin s =
             (case forEachImmCase ext (Some c) node (\<lambda>k. emit (caseIns k)) s of
                (Inl e, s2) \<Rightarrow> (Inl e, s2)
              | (Inr u, s2) \<Rightarrow> (Inr (), genProduceReg node s2))"
    using id ntd n o1 o2 o3 valid sz
    by (auto simp: gen_defs genSpecial_def sel caseIns_def)
  have 1: "contained c = ContainedInt v \<longrightarrow>
            fst (genHWIntrinsic ext node intrin s) = Inr () \<and> S = [caseIns (ucast v)]"
  proof
    assume cv: "contained c = ContainedInt v"
    show "fst (genHWIntrinsic ext node intrin s) = Inr () \<and> S = [caseIns (ucast v)]"
      unfolding S_def g forEachImmCase_const[OF imm cv]
      by (simp add: genProduceReg_def emit_def)
  qed
  have 2: "\<not> isContainedIntOrIImmed c \<and> regNum c \<noteq> REG_NA \<and> ub = 2 \<longrightarrow>
            fst (genHWIntrinsic ext node intrin s) = Inr ()
            \<and> S = [Ins_J_R INS_cbnz EA_4BYTE (Some (nextLabel s)) (regNum c),
                   DefineLabel (Some (nextLabel s + 2)),
                   caseIns 0,
                   Ins_J INS_b (Some (nextLabel s + 1)),
                   DefineLabel (Some (nextLabel s)),
                   caseIns 1,
                   DefineLabel (Some (nextLabel s + 1))]"
  proof
    assume h: "\<not> isContainedIntOrIImmed c \<and> regNum c \<noteq> REG_NA \<and> ub = 2"
    then have nc: "\<not> isContainedIntOrIImmed c" and r: "regNum c \<noteq> REG_NA"
      and u: "lookupImmUpperBound ext (gtHWIntrinsicId node) (gtSIMDSize node)
                (gtSIMDBaseType node) = 2"
      by (simp_all add: ub_def)
    show "fst (genHWIntrinsic ext node intrin s) = Inr ()
            \<and> S = [Ins_J_R INS_cbnz EA_4BYTE (Some (nextLabel s)) (regNum c),
                   DefineLabel (Some (nextLabel s + 2)),
                   caseIns 0,
                   Ins_J INS_b (Some (nextLabel s + 1)),
                   DefineLabel (Some (nextLabel s)),
                   caseIns 1,
                   DefineLabel (Some (nextLabel s + 1))]"
      unfolding S_def g forEachImmCase_zeroOrOne[OF imm nc r u]
      by (simp add: genProduceReg_def)
  qed
  have 3: "\<not> isContainedIntOrIImmed c \<and> regNum c \<noteq> REG_NA \<and> ub \<noteq> 2
            \<and> \<not> GeneratesMultipleIns ext (gtHWIntrinsicId node) \<longrightarrow>
            fst (genHWIntrinsic ext node intrin s) = Inr ()
            \<and> (\<forall>laneIndex < unat ub. S ! (4 + 3 * laneIndex) = caseIns (of_nat laneIndex))"
  proof
    assume h: "\<not> isContainedIntOrIImmed c \<and> regNum c \<noteq> REG_NA \<and> ub \<noteq> 2
            \<and> \<not> GeneratesMultipleIns ext (gtHWIntrinsicId node)"
    then have nc: "\<not> isContainedIntOrIImmed c" and r: "regNum c \<noteq> REG_NA"
      and u2: "ub \<noteq> 2" and single: "\<not> GeneratesMultipleIns ext (gtHWIntrinsicId node)"
      by simp_all
    have u: "lookupImmUpperBound ext (gtHWIntrinsicId node) (gtSIMDSize node)
                (gtSIMDBaseType node) = ub" by (simp add: ub_def)
    have nth: "\<And>xs ys i. length xs = 4 \<Longrightarrow> (xs @ ys) ! (4 + i) = ys ! i"
      by (simp add: nth_append)
    show "fst (genHWIntrinsic ext node intrin s) = Inr ()
            \<and> (\<forall>laneIndex < unat ub. S ! (4 + 3 * laneIndex) = caseIns (of_nat laneIndex))"
      unfolding S_def g forEachImmCase_jumpTable[OF imm nc r u u2 single]
      using jumpTableCases_nth[of _ "unat ub" "Some (nextLabel s)" caseIns 0 "nextLabel s + 2"]
      by (simp add: genProduceReg_def)
  qed
  have 4: "unat (genTypeSize ext (baseType intrin)) * unat k < 2 ^ 31 \<longrightarrow>
            sint (scast (genTypeSize ext (baseType intrin) * k) :: ssize_t)
              = int (unat (genTypeSize ext (baseType intrin))) * int (unat k)"
    using byte_index_value by blast
  show ?thesis using 1 2 3 4 by blast
qed


theorem extract_vector_byte_offset_witness:
  "drop 0 (stream (snd (genHWIntrinsic sample_ext
       (sample_node NI_AdvSimd_ExtractVector128 TYP_INT (REG 0) False)
       (sample_intrin NI_AdvSimd_ExtractVector128 HW_Category_IMM TYP_INT 3
          (Some (inReg 1)) (Some (inReg 2)) (Some (intConst 3)) False) empty_state)))
     = [Ins_R_R_R_I (INS_other 1) EA_16BYTE (REG 0) (REG 1) (REG 2) 12 INS_OPTS_16B]
   \<and> drop 0 (stream (snd (genHWIntrinsic sample_ext
       (sample_node NI_AdvSimd_ExtractVector128 TYP_LONG (REG 0) False)
       (sample_intrin NI_AdvSimd_ExtractVector128 HW_Category_IMM TYP_LONG 3
          (Some (inReg 1)) (Some (inReg 2)) (Some (inReg 5)) False) empty_state)))
     = [Ins_J_R INS_cbnz EA_4BYTE (Some 0) (REG 5),
        DefineLabel (Some 2),
        Ins_R_R_R_I (INS_other 1) EA_16BYTE (REG 0) (REG 1) (REG 2) 0 INS_OPTS_16B,
        Ins_J INS_b (Some 1),
        DefineLabel (Some 0),
        Ins_R_R_R_I (INS_other 1) EA_16BYTE (REG 0) (REG 1) (REG 2) 8 INS_OPTS_16B,
        DefineLabel (Some 1)]
   \<and> drop 0 (stream (snd (genHWIntrinsic sample_ext
       (sample_node NI_AdvSimd_ExtractVector128 TYP_INT (REG 0) False)
       (sample_intrin NI_AdvSimd_ExtractVector128 HW_Category_IMM TYP_INT 3
          (Some (inReg 1)) (Some (inReg 2)) (Some (inReg 5)) False) empty_state))) ! (4 + 3 * 3)
     = Ins_R_R_R_I (INS_other 1) EA_16BYTE (REG 0) (REG 1) (REG 2) 12 INS_OPTS_16B
   \<and> sint (scast (sample_genTypeSize TYP_INT * 3) :: ssize_t) = 12"
proof -
  let ?nodeI = "sample_node NI_AdvSimd_ExtractVector128 TYP_INT (REG 0) False"
  let ?nodeL = "sample_node NI_AdvSimd_ExtractVector128 TYP_LONG (REG 0) False"
  let ?ic = "sample_intrin NI_AdvSimd_ExtractVector128 HW_Category_IMM TYP_INT 3
          (Some (inReg 1)) (Some (inReg 2)) (Some (intConst 3)) False"
  let ?iz = "sample_intrin NI_AdvSimd_ExtractVector128 HW_Category_IMM TYP_LONG 3
          (Some (inReg 1)) (Some (inReg 2)) (Some (inReg 5)) False"
  let ?ij = "sample_intrin NI_AdvSimd_ExtractVector128 HW_Category_IMM TYP_INT 3
          (Some (inReg 1)) (Some (inReg 2)) (Some (inReg 5)) False"
  have c: "drop 0 (stream (snd (genHWIntrinsic sample_ext ?nodeI ?ic empty_state)))
     = [Ins_R_R_R_I (INS_other 1) EA_16BYTE (REG 0) (REG 1) (REG 2) 12 INS_OPTS_16B]"
    using extract_vector_byte_offset
            [where ext = sample_ext and node = ?nodeI and intrin = ?ic and s = empty_state
               and a = "inReg 1" and b = "inReg 2" and c = "intConst 3" and v = 3
               and ins = "INS_other 1" and emitSize = EA_16BYTE and opt = INS_OPTS_4S]
    by (simp add: sample_eval)
  have z: "drop 0 (stream (snd (genHWIntrinsic sample_ext ?nodeL ?iz empty_state)))
     = [Ins_J_R INS_cbnz EA_4BYTE (Some 0) (REG 5),
        DefineLabel (Some 2),
        Ins_R_R_R_I (INS_other 1) EA_16BYTE (REG 0) (REG 1) (REG 2) 0 INS_OPTS_16B,
        Ins_J INS_b (Some 1),
        DefineLabel (Some 0),
        Ins_R_R_R_I (INS_other 1) EA_16BYTE (REG 0) (REG 1) (REG 2) 8 INS_OPTS_16B,
        DefineLabel (Some 1)]"
    using extract_vector_byte_offset
            [where ext = sample_ext and node = ?nodeL and intrin = ?iz and s = empty_state
               and a = "inReg 1" and b = "inReg 2" and c = "inReg 5"
               and ins = "INS_other 1" and emitSize = EA_16BYTE and opt = INS_OPTS_4S]
    by (simp add: sample_eval)
  have j: "drop 0 (stream (snd (genHWIntrinsic sample_ext ?nodeI ?ij empty_state))) ! (4 + 3 * 3)
     = Ins_R_R_R_I (INS_other 1) EA_16BYTE (REG 0) (REG 1) (REG 2) 12 INS_OPTS_16B
     \<and> sint (scast (sample_genTypeSize TYP_INT * 3) :: ssize_t) = 12"
    using extract_vector_byte_offset
            [where ext = sample_ext and node = ?nodeI and intrin = ?ij and s = empty_state
               and a = "inReg 1" and b = "inReg 2" and c = "inReg 5" and k = 3
               and ins = "INS_other 1" and emitSize = EA_16BYTE and opt = INS_OPTS_4S]
    apply (simp add: sample_eval)
    apply (elim conjE)
    apply (drule spec[where x = 3])
    apply simp
    done
  show ?thesis using c z j by simp
qed

end
